theory Spec2Isabelle
  imports Complex_Main
begin

section \<open>Layer queries, symbol resolution, selection and grid generation\<close>

text \<open>
  A shallow embedding of \<^verbatim>\<open>src/sketch/src/sketch/layers.js\<close>. The host application's
  objects are modelled as values: the ambient document (\<^verbatim>\<open>Context().document\<close>) is an
  explicit state that every mutating operation takes and returns, a JavaScript exception
  is a value of type \<open>error\<close>, and JavaScript numbers are exact rationals (the
  rounding of IEEE doubles is not modelled).
\<close>

datatype error = TypeError | NSInvalidArgumentException

subsection \<open>Symbol masters and libraries\<close>

text \<open>
  \<^verbatim>\<open>getSymbols()\<close> yields wrappers with a \<^verbatim>\<open>name\<close>, an \<^verbatim>\<open>id\<close> and the native
  \<^verbatim>\<open>sketchObject\<close>. A library has a \<^verbatim>\<open>valid\<close> flag and a list of importable symbol
  references; \<^verbatim>\<open>import()\<close> on a reference yields a symbol wrapper.
\<close>

record symbol =
  symbolName :: string
  symbolId :: string
  sketchObject :: nat

record reference =
  referenceName :: string
  referenceId :: string
  importResult :: symbol

record library =
  libraryId :: nat
  valid :: bool
  importableSymbolReferences :: "reference list"

text \<open>
  What the resolver does to the host: \<open>Queried l\<close> records the call
  \<^verbatim>\<open>getImportableSymbolReferencesForDocument\<close> on library \<open>l\<close>, \<open>Imported r\<close> the call
  \<^verbatim>\<open>import()\<close> on reference \<open>r\<close>.
\<close>

datatype event = Queried nat | Imported reference

text \<open>
  The three results of the JavaScript functions: a bare \<^verbatim>\<open>return\<close> (undefined),
  \<^verbatim>\<open>null\<close>, or the native object of the master that was found.
\<close>

datatype masterResult = ReturnedUndefined | ReturnedNull | ReturnedObject nat

text \<open>
  The loop over the libraries. Its state is the variable \<^verbatim>\<open>symbolMaster\<close> and the
  events so far. The result \<open>None\<close> is the bare \<^verbatim>\<open>return\<close> inside the loop, which
  leaves the whole function; \<open>Some m\<close> is the value of \<^verbatim>\<open>symbolMaster\<close> when the loop
  ends.
\<close>

fun searchLibraries ::
  "(reference \<Rightarrow> bool) \<Rightarrow> library list \<Rightarrow> symbol option \<Rightarrow> event list
    \<Rightarrow> symbol option option \<times> event list" where
  "searchLibraries matches [] symbolMaster evs = (Some symbolMaster, evs)"
| "searchLibraries matches (library # libraries) symbolMaster evs =
     (if \<not> valid library then (None, evs)
      else
        (case filter matches (importableSymbolReferences library) of
           [] \<Rightarrow> searchLibraries matches libraries symbolMaster (evs @ [Queried (libraryId library)])
         | symbolReference # _ \<Rightarrow>
             searchLibraries matches libraries (Some (importResult symbolReference))
               (evs @ [Queried (libraryId library), Imported symbolReference])))"

definition returnMaster :: "symbol option \<Rightarrow> masterResult" where
  "returnMaster symbolMaster =
     (case symbolMaster of Some m \<Rightarrow> ReturnedObject (sketchObject m) | None \<Rightarrow> ReturnedNull)"

definition findSymbolMasterWithName ::
  "string \<Rightarrow> symbol list \<Rightarrow> library list \<Rightarrow> masterResult \<times> event list" where
  "findSymbolMasterWithName name symbols libraries =
     (case filter (\<lambda>symbol. symbolName symbol = name) symbols of
        symbolMaster # _ \<Rightarrow> (returnMaster (Some symbolMaster), [])
      | [] \<Rightarrow>
          (case searchLibraries (\<lambda>reference. referenceName reference = name) libraries None [] of
             (None, evs) \<Rightarrow> (ReturnedUndefined, evs)
           | (Some symbolMaster, evs) \<Rightarrow> (returnMaster symbolMaster, evs)))"

definition findSymbolMasterWithId ::
  "string \<Rightarrow> symbol list \<Rightarrow> library list \<Rightarrow> masterResult \<times> event list" where
  "findSymbolMasterWithId ident symbols libraries =
     (case filter (\<lambda>symbol. symbolId symbol = ident) symbols of
        symbolMaster # _ \<Rightarrow> (returnMaster (Some symbolMaster), [])
      | [] \<Rightarrow>
          (case searchLibraries (\<lambda>reference. referenceId reference = ident) libraries None [] of
             (None, evs) \<Rightarrow> (ReturnedUndefined, evs)
           | (Some symbolMaster, evs) \<Rightarrow> (returnMaster symbolMaster, evs)))"

subsection \<open>Layer trees and the predicate query\<close>

text \<open>
  For the queries, which only read the document, a layer is a node of a tree: its
  identity, its (nullable) name, its class name and its sublayers (\<^verbatim>\<open>layers()\<close>).
\<close>

datatype layer =
  Layer (objectID: nat) (name: "string option") (className: string) (layers: "layer list")

definition PAGE :: string where "PAGE = ''MSPage''"
definition ARTBOARD :: string where "ARTBOARD = ''MSArtboardGroup''"
definition GROUP :: string where "GROUP = ''MSLayerGroup''"
definition TEXT :: string where "TEXT = ''MSTextLayer''"
definition SHAPE :: string where "SHAPE = ''MSShapeGroup''"
definition BITMAP :: string where "BITMAP = ''MSBitmapLayer''"
definition SYMBOL :: string where "SYMBOL = ''MSSymbolInstance''"
definition SYMBOL_MASTER :: string where "SYMBOL_MASTER = ''MSSymbolMaster''"
definition ANY :: "string option" where "ANY = None"

text \<open>
  The host's \<^verbatim>\<open>children()\<close>: the layer and all its descendants. The order chosen here
  (the layer, then each subtree in turn) plays no role in what is proved below.
\<close>

fun children :: "layer \<Rightarrow> layer list" where
  "children (Layer i n c ls) = Layer i n c ls # concat (map children ls)"

text \<open>
  The pattern match of the predicate operator \<^verbatim>\<open>like\<close>: the pattern has to match the
  whole string, \<^verbatim>\<open>*\<close> stands for any run of characters and \<^verbatim>\<open>?\<close> for any single one.
  This is the reading under which, as the comment above \<^verbatim>\<open>findLayersInLayer\<close> says, the
  name \<^verbatim>\<open>*\<close> with \<^verbatim>\<open>exactMatch\<close> false returns all layers.
\<close>

fun like :: "string \<Rightarrow> string \<Rightarrow> bool" where
  "like [] [] = True"
| "like [] (c # cs) = False"
| "like (p # ps) [] = (p = CHR ''*'' \<and> like ps [])"
| "like (p # ps) (c # cs) =
     (if p = CHR ''*'' then like ps (c # cs) \<or> like (p # ps) cs
      else (p = CHR ''?'' \<or> p = c) \<and> like ps cs)"

text \<open>
  A JavaScript \<^verbatim>\<open>s.includes(n)\<close>: \<open>n\<close> occurs in \<open>s\<close> as a contiguous run. It is the
  substring test that the specification speaks of; the code does not use it.
\<close>

fun startsWith :: "string \<Rightarrow> string \<Rightarrow> bool" where
  "startsWith [] s = True"
| "startsWith (a # as) [] = False"
| "startsWith (a # as) (c # cs) = (a = c \<and> startsWith as cs)"

fun includesString :: "string \<Rightarrow> string \<Rightarrow> bool" where
  "includesString n [] = (n = [])"
| "includesString n (c # cs) = (startsWith n (c # cs) \<or> includesString n cs)"

text \<open>
  The entries of \<^verbatim>\<open>formatRules\<close>. Each constructor stands for one of the strings that the
  code pushes; \<open>NameEquals\<close>, \<open>NameLike\<close>, \<open>ClassNameEquals\<close> and \<open>NotSelfIn\<close> contain
  the placeholder \<^verbatim>\<open>%@\<close>, the other two do not:
  \<^item> \<open>NameNotNull\<close> is \<^verbatim>\<open>(name != NULL)\<close>;
  \<^item> \<open>NameEquals\<close> is \<^verbatim>\<open>(name == %@)\<close>;
  \<^item> \<open>NameLike\<close> is \<^verbatim>\<open>(name like %@)\<close>;
  \<^item> \<open>ClassNameAmong cs\<close> is \<^verbatim>\<open>(className == "c1" OR className == "c2" ...)\<close>;
  \<^item> \<open>ClassNameEquals\<close> is \<^verbatim>\<open>(className == %@)\<close>;
  \<^item> \<open>NotSelfIn\<close> is \<^verbatim>\<open>NOT (SELF IN %@)\<close>.
\<close>

datatype formatRule =
  NameNotNull | NameEquals | NameLike | ClassNameAmong "string list" | ClassNameEquals | NotSelfIn

text \<open>The entries of \<^verbatim>\<open>args\<close>: a string or an array of layers.\<close>

datatype arg = StringArg string | ArrayArg "layer list"

definition shapeClassNames :: "string list" where
  "shapeClassNames =
     [''MSRectangleShape'', ''MSTriangleShape'', ''MSOvalShape'', ''MSStarShape'',
      ''MSPolygonShape'', ''MSShapeGroup'']"

definition anyClassNames :: "string list" where
  "anyClassNames =
     [''MSLayerGroup'', ''MSShapeGroup'', ''MSArtboardGroup'', ''MSTextLayer'',
      ''MSRectangleShape'', ''MSTriangleShape'', ''MSOvalShape'', ''MSStarShape'',
      ''MSPolygonShape'']"

fun hasPlaceholder :: "formatRule \<Rightarrow> bool" where
  "hasPlaceholder NameEquals = True"
| "hasPlaceholder NameLike = True"
| "hasPlaceholder ClassNameEquals = True"
| "hasPlaceholder NotSelfIn = True"
| "hasPlaceholder _ = False"

text \<open>
  \<^verbatim>\<open>predicateWithFormat_argumentArray\<close>: the rules are joined with \<^verbatim>\<open>AND\<close>, and the
  placeholders take the arguments in order, the first placeholder the first argument.
  Arguments left over are ignored; a placeholder with no argument left gets \<open>None\<close>.
\<close>

fun predicateWithFormat_argumentArray ::
  "formatRule list \<Rightarrow> arg list \<Rightarrow> (formatRule \<times> arg option) list" where
  "predicateWithFormat_argumentArray [] args = []"
| "predicateWithFormat_argumentArray (r # rs) args =
     (if hasPlaceholder r then
        (case args of
           [] \<Rightarrow> (r, None) # predicateWithFormat_argumentArray rs []
         | a # as \<Rightarrow> (r, Some a) # predicateWithFormat_argumentArray rs as)
      else (r, None) # predicateWithFormat_argumentArray rs args)"

text \<open>
  One conjunct on one layer. Where the operand has the type the rule expects, the
  meaning is fixed: equality of strings, the pattern match, membership by identity.
  \<^verbatim>\<open>SELF IN\<close> a string, with \<^verbatim>\<open>SELF\<close> a layer, is what the host makes of it: that
  verdict is the parameter \<open>selfInString\<close> (the Foundation framework raises
  \<^verbatim>\<open>NSInvalidArgumentException\<close> there). A comparison of a string with an array is false
  and a missing argument is an error; neither arises from \<^verbatim>\<open>findLayersInLayer\<close>.
\<close>

fun evaluateRule ::
  "(layer \<Rightarrow> string \<Rightarrow> error + bool) \<Rightarrow> formatRule \<times> arg option \<Rightarrow> layer \<Rightarrow> error + bool" where
  "evaluateRule selfInString (NameNotNull, _) l = Inr (name l \<noteq> None)"
| "evaluateRule selfInString (ClassNameAmong cs, _) l = Inr (className l \<in> set cs)"
| "evaluateRule selfInString (NameEquals, Some (StringArg s)) l = Inr (name l = Some s)"
| "evaluateRule selfInString (NameLike, Some (StringArg s)) l =
     Inr (case name l of None \<Rightarrow> False | Some n \<Rightarrow> like s n)"
| "evaluateRule selfInString (ClassNameEquals, Some (StringArg s)) l = Inr (className l = s)"
| "evaluateRule selfInString (NotSelfIn, Some (ArrayArg ls)) l =
     Inr (objectID l \<notin> set (map objectID ls))"
| "evaluateRule selfInString (NotSelfIn, Some (StringArg s)) l =
     (case selfInString l s of Inl e \<Rightarrow> Inl e | Inr b \<Rightarrow> Inr (\<not> b))"
| "evaluateRule selfInString (_, Some (ArrayArg ls)) l = Inr False"
| "evaluateRule selfInString (_, None) l = Inl NSInvalidArgumentException"

text \<open>The conjunction is evaluated from the left and stops at the first false conjunct.\<close>

fun evaluateWithObject ::
  "(layer \<Rightarrow> string \<Rightarrow> error + bool) \<Rightarrow> (formatRule \<times> arg option) list \<Rightarrow> layer \<Rightarrow> error + bool"
  where
  "evaluateWithObject selfInString [] l = Inr True"
| "evaluateWithObject selfInString (r # rs) l =
     (case evaluateRule selfInString r l of
        Inl e \<Rightarrow> Inl e
      | Inr b \<Rightarrow> if b then evaluateWithObject selfInString rs l else Inr False)"

fun filteredArrayUsingPredicate ::
  "(layer \<Rightarrow> string \<Rightarrow> error + bool) \<Rightarrow> (formatRule \<times> arg option) list \<Rightarrow> layer list
    \<Rightarrow> error + layer list" where
  "filteredArrayUsingPredicate selfInString predicate [] = Inr []"
| "filteredArrayUsingPredicate selfInString predicate (l # ls) =
     (case evaluateWithObject selfInString predicate l of
        Inl e \<Rightarrow> Inl e
      | Inr b \<Rightarrow>
          (case filteredArrayUsingPredicate selfInString predicate ls of
             Inl e \<Rightarrow> Inl e
           | Inr rest \<Rightarrow> Inr (if b then l # rest else rest)))"

text \<open>
  \<^verbatim>\<open>findLayersInLayer\<close>. A name is used when it is truthy, that is, not the empty
  string; a type when it is neither \<^verbatim>\<open>null\<close> (\<open>ANY\<close>) nor the empty string; the
  exclusion list whenever it is given, also when it is an empty array. As in the code,
  the type is pushed onto \<^verbatim>\<open>args\<close> in both branches of the test for \<open>SHAPE\<close>.
\<close>

definition nameRules :: "string \<Rightarrow> bool \<Rightarrow> formatRule list \<times> arg list" where
  "nameRules nm exactMatch =
     (if nm \<noteq> [] then
        ((if exactMatch then [NameNotNull, NameEquals] else [NameNotNull, NameLike]),
         [StringArg nm])
      else ([NameNotNull], []))"

definition typeRules ::
  "string option \<Rightarrow> formatRule list \<times> arg list \<Rightarrow> formatRule list \<times> arg list" where
  "typeRules type ra =
     (case ra of (formatRules, args) \<Rightarrow>
        (if type \<noteq> None \<and> type \<noteq> Some [] then
           ((if the type = SHAPE then formatRules @ [ClassNameAmong shapeClassNames]
             else formatRules @ [ClassNameEquals]),
            args @ [StringArg (the type)])
         else (formatRules @ [ClassNameAmong anyClassNames], args)))"

definition excludeRules ::
  "layer list option \<Rightarrow> formatRule list \<times> arg list \<Rightarrow> formatRule list \<times> arg list" where
  "excludeRules layersToExclude ra =
     (case ra of (formatRules, args) \<Rightarrow>
        (case layersToExclude of
           Some ls \<Rightarrow> (formatRules @ [NotSelfIn], args @ [ArrayArg ls])
         | None \<Rightarrow> (formatRules, args)))"

definition findLayersInLayer ::
  "(layer \<Rightarrow> string \<Rightarrow> error + bool) \<Rightarrow> string \<Rightarrow> bool \<Rightarrow> string option \<Rightarrow> layer \<Rightarrow> bool
    \<Rightarrow> layer list option \<Rightarrow> error + layer list" where
  "findLayersInLayer selfInString nm exactMatch type rootLayer subLayersOnly layersToExclude =
     (case excludeRules layersToExclude (typeRules type (nameRules nm exactMatch)) of
        (formatRules, args) \<Rightarrow>
          filteredArrayUsingPredicate selfInString
            (predicateWithFormat_argumentArray formatRules args)
            (if subLayersOnly then layers rootLayer else children rootLayer))"

subsection \<open>The document as a store of layer objects\<close>

text \<open>
  Grid creation mutates layers that the caller shares with the document, so here the
  layers live in a store and are named by their position in it. An object carries its
  frame, its parent (\<^verbatim>\<open>parentGroup()\<close>, \<open>None\<close> for a detached layer) and, in \<open>attrs\<close>,
  everything else that a duplicate shares with its original. The tree is given by the
  parent references alone. \<open>calls\<close> is the list of tree edits made so far, in order.
\<close>

record layerObj =
  attrs :: string
  frame_x :: rat
  frame_y :: rat
  frame_width :: rat
  frame_height :: rat
  parentGroup :: "nat option"

datatype call = RemoveFromParent nat | AddLayers nat "nat list"

record document =
  store :: "layerObj list"
  nativeSelection :: "nat list"
  messages :: "string list"
  calls :: "call list"

definition obj :: "document \<Rightarrow> nat \<Rightarrow> layerObj" where
  "obj d l = store d ! l"

definition showMessage :: "string \<Rightarrow> document \<Rightarrow> document" where
  "showMessage m d = d\<lparr>messages := messages d @ [m]\<rparr>"

definition removeFromParent :: "nat \<Rightarrow> document \<Rightarrow> document" where
  "removeFromParent l d =
     d\<lparr>store := (store d)[l := (obj d l)\<lparr>parentGroup := None\<rparr>],
       calls := calls d @ [RemoveFromParent l]\<rparr>"

definition addLayers :: "nat \<Rightarrow> nat list \<Rightarrow> document \<Rightarrow> document" where
  "addLayers p ls d =
     (fold (\<lambda>l d'. d'\<lparr>store := (store d')[l := (obj d' l)\<lparr>parentGroup := Some p\<rparr>]\<rparr>) ls d)
       \<lparr>calls := calls d @ [AddLayers p ls]\<rparr>"

definition setX :: "nat \<Rightarrow> rat \<Rightarrow> document \<Rightarrow> document" where
  "setX l v d = d\<lparr>store := (store d)[l := (obj d l)\<lparr>frame_x := v\<rparr>]\<rparr>"

definition setY :: "nat \<Rightarrow> rat \<Rightarrow> document \<Rightarrow> document" where
  "setY l v d = d\<lparr>store := (store d)[l := (obj d l)\<lparr>frame_y := v\<rparr>]\<rparr>"

text \<open>
  Modelled from the spec: \<^verbatim>\<open>Utils.copyLayer\<close> is not among the sources. The
  specification says "duplicate the anchor", and \<^verbatim>\<open>createGrid\<close> inserts the copy into a
  parent afterwards: the copy is a new object, at the next free place of the store, with
  the attributes and the frame of the original and no parent.
\<close>

definition copyLayer :: "nat \<Rightarrow> document \<Rightarrow> nat \<times> document" where
  "copyLayer l d = (length (store d), d\<lparr>store := store d @ [(obj d l)\<lparr>parentGroup := None\<rparr>]\<rparr>)"

text \<open>
  Modelled from the spec: \<^verbatim>\<open>Utils.convertToJSArray\<close> is not among the sources. It
  turns the host's array into a sequence of the same elements in the same order.
\<close>

definition convertToJSArray :: "'a list \<Rightarrow> 'a list" where
  "convertToJSArray xs = xs"

subsection \<open>Selection\<close>

text \<open>
  \<open>nativeSelection\<close> is what the host's \<^verbatim>\<open>selectedLayers()\<close> returns. The host's
  \<^verbatim>\<open>select_byExtendingSelection(select, extending)\<close> on a layer: deselecting takes the layer
  out of the selection; selecting with \<open>extending\<close> puts it behind the layers already
  selected (and does nothing if it is among them), selecting without \<open>extending\<close> makes it
  the only selected layer.
\<close>

definition select_byExtendingSelection :: "nat \<Rightarrow> bool \<Rightarrow> bool \<Rightarrow> document \<Rightarrow> document" where
  "select_byExtendingSelection l select extending d =
     (if select then
        (if extending then
           (if l \<in> set (nativeSelection d) then d
            else d\<lparr>nativeSelection := nativeSelection d @ [l]\<rparr>)
         else d\<lparr>nativeSelection := [l]\<rparr>)
      else d\<lparr>nativeSelection := removeAll l (nativeSelection d)\<rparr>)"

definition getSelectedLayers :: "document \<Rightarrow> nat list" where
  "getSelectedLayers d = rev (convertToJSArray (nativeSelection d))"

definition selectLayers :: "nat list \<Rightarrow> document \<Rightarrow> document" where
  "selectLayers ls d =
     fold (\<lambda>l. select_byExtendingSelection l True True) ls
       (fold (\<lambda>l. select_byExtendingSelection l False False) (getSelectedLayers d) d)"

subsection \<open>Grid creation\<close>

text \<open>
  The fields of the options object are JavaScript values: possibly \<^verbatim>\<open>undefined\<close>,
  \<^verbatim>\<open>null\<close> or \<^verbatim>\<open>NaN\<close>, otherwise a (finite) number. \<open>falsy v\<close> is \<^verbatim>\<open>!v\<close>,
  \<open>lessThanZero v\<close> is \<^verbatim>\<open>v < 0\<close> and \<open>notIdenticalToZero v\<close> is \<^verbatim>\<open>v !== 0\<close>.
\<close>

datatype jsval = JUndefined | JNull | JNaN | JNum rat

fun falsy :: "jsval \<Rightarrow> bool" where
  "falsy (JNum q) = (q = 0)"
| "falsy _ = True"

fun lessThanZero :: "jsval \<Rightarrow> bool" where
  "lessThanZero (JNum q) = (q < 0)"
| "lessThanZero _ = False"

fun notIdenticalToZero :: "jsval \<Rightarrow> bool" where
  "notIdenticalToZero (JNum q) = (q \<noteq> 0)"
| "notIdenticalToZero _ = True"

text \<open>
  The number that a value stands for in the arithmetic of the layout. Only numbers get
  there: the checks at the head of \<^verbatim>\<open>createGrid\<close> turn every other value away.
\<close>

fun num :: "jsval \<Rightarrow> rat" where
  "num (JNum q) = q"
| "num _ = 0"

record gridOpt =
  rowsCount :: jsval
  rowsMargin :: jsval
  columnsCount :: jsval
  columnsMargin :: jsval

text \<open>
  The scan for the anchor: the loop runs over the whole selection, the first layer
  included, and carries \<^verbatim>\<open>layer\<close>, \<^verbatim>\<open>smallestX\<close> and \<^verbatim>\<open>smallestY\<close>.
\<close>

fun anchorLoop :: "document \<Rightarrow> nat list \<Rightarrow> nat \<times> rat \<times> rat \<Rightarrow> nat \<times> rat \<times> rat" where
  "anchorLoop d [] (layer, smallestX, smallestY) = (layer, smallestX, smallestY)"
| "anchorLoop d (tempLayer # rest) (layer, smallestX, smallestY) =
     (if frame_x (obj d tempLayer) < smallestX \<or> frame_y (obj d tempLayer) < smallestY
      then anchorLoop d rest (tempLayer, frame_x (obj d tempLayer), frame_y (obj d tempLayer))
      else anchorLoop d rest (layer, smallestX, smallestY))"

text \<open>Reading \<^verbatim>\<open>selectedLayers[0].frame()\<close> of an empty selection is a \<^verbatim>\<open>TypeError\<close>.\<close>

definition mostTopLeft :: "document \<Rightarrow> nat list \<Rightarrow> error + nat" where
  "mostTopLeft d selectedLayers =
     (case selectedLayers of
        [] \<Rightarrow> Inl TypeError
      | first # _ \<Rightarrow>
          Inr (fst (anchorLoop d selectedLayers
                 (first, frame_x (obj d first), frame_y (obj d first)))))"

text \<open>
  The inner loop, over the columns of one row. \<^verbatim>\<open>layerParent\<close> is \<open>None\<close> when no parent
  was found; calling \<^verbatim>\<open>addLayers\<close> on it is then a \<^verbatim>\<open>TypeError\<close>, raised after the copy
  has been made.
\<close>

function columnsLoop ::
  "nat \<Rightarrow> nat option \<Rightarrow> gridOpt \<Rightarrow> rat \<Rightarrow> rat \<Rightarrow> rat \<Rightarrow> nat \<Rightarrow> nat list \<Rightarrow> document
    \<Rightarrow> (error + nat list) \<times> document" where
  "columnsLoop layer layerParent opt startX layerWidth y j newSelectedLayers d =
     (if of_nat j < num (columnsCount opt) then
        (case copyLayer layer d of
           (copy, d1) \<Rightarrow>
             (case layerParent of
                None \<Rightarrow> (Inl TypeError, d1)
              | Some p \<Rightarrow>
                  columnsLoop layer layerParent opt startX layerWidth y (Suc j)
                    (newSelectedLayers @ [copy])
                    (setY copy y
                      (setX copy (startX + of_nat j * (layerWidth + num (columnsMargin opt)))
                        (addLayers p [copy] d1)))))
      else (Inr newSelectedLayers, d))"
  by pat_completeness auto
termination
proof -
  have decr: "nat \<lceil>c\<rceil> - Suc j < nat \<lceil>c\<rceil> - j" if "of_nat j < c" for j :: nat and c :: rat
  proof -
    from that have "int j < \<lceil>c\<rceil>"
      by (simp add: less_ceiling_iff)
    then show ?thesis by linarith
  qed
  show ?thesis
    by (relation "measure (\<lambda>(layer, layerParent, opt, startX, layerWidth, y, j, newSelectedLayers, d).
          nat \<lceil>num (columnsCount opt)\<rceil> - j)")
       (auto simp: decr)
qed

text \<open>The outer loop, over the rows.\<close>

function rowsLoop ::
  "nat \<Rightarrow> nat option \<Rightarrow> gridOpt \<Rightarrow> rat \<Rightarrow> rat \<Rightarrow> rat \<Rightarrow> rat \<Rightarrow> nat \<Rightarrow> nat list \<Rightarrow> document
    \<Rightarrow> (error + nat list) \<times> document" where
  "rowsLoop layer layerParent opt startX startY layerWidth layerHeight i newSelectedLayers d =
     (if of_nat i < num (rowsCount opt) then
        (case columnsLoop layer layerParent opt startX layerWidth
                (startY + of_nat i * (layerHeight + num (rowsMargin opt))) 0 newSelectedLayers d of
           (Inl e, d') \<Rightarrow> (Inl e, d')
         | (Inr newSelectedLayers', d') \<Rightarrow>
             rowsLoop layer layerParent opt startX startY layerWidth layerHeight (Suc i)
               newSelectedLayers' d')
      else (Inr newSelectedLayers, d))"
  by pat_completeness auto
termination
proof -
  have decr: "nat \<lceil>c\<rceil> - Suc i < nat \<lceil>c\<rceil> - i" if "of_nat i < c" for i :: nat and c :: rat
  proof -
    from that have "int i < \<lceil>c\<rceil>"
      by (simp add: less_ceiling_iff)
    then show ?thesis by linarith
  qed
  show ?thesis
    by (relation "measure (\<lambda>(layer, layerParent, opt, startX, startY, layerWidth, layerHeight, i,
          newSelectedLayers, d). nat \<lceil>num (rowsCount opt)\<rceil> - i)")
       (auto simp: decr)
qed

text \<open>
  The parent that \<^verbatim>\<open>createGrid\<close> captures: the parent group, else the parent artboard,
  else the parent page. The host's \<^verbatim>\<open>parentArtboard()\<close> and \<^verbatim>\<open>parentPage()\<close> are
  parameters.
\<close>

definition layerParentOf ::
  "(document \<Rightarrow> nat \<Rightarrow> nat option) \<Rightarrow> (document \<Rightarrow> nat \<Rightarrow> nat option) \<Rightarrow> document \<Rightarrow> nat
    \<Rightarrow> nat option" where
  "layerParentOf parentArtboard parentPage d layer =
     (case parentGroup (obj d layer) of
        Some p \<Rightarrow> Some p
      | None \<Rightarrow>
          (case parentArtboard d layer of
             Some p \<Rightarrow> Some p
           | None \<Rightarrow> parentPage d layer))"

text \<open>
  \<^verbatim>\<open>createGrid\<close>. The result \<open>Inr None\<close> is the bare \<^verbatim>\<open>return\<close> after a message,
  \<open>Inr (Some ls)\<close> the array of new layers, \<open>Inl e\<close> an exception.
\<close>

definition createGrid ::
  "(document \<Rightarrow> nat \<Rightarrow> nat option) \<Rightarrow> (document \<Rightarrow> nat \<Rightarrow> nat option) \<Rightarrow> nat list \<Rightarrow> gridOpt
    \<Rightarrow> document \<Rightarrow> (error + nat list option) \<times> document" where
  "createGrid parentArtboard parentPage selectedLayers opt d =
     (if falsy (rowsCount opt) \<or> lessThanZero (rowsCount opt) then
        (Inr None, showMessage ''Number of grid rows must be at least 1.'' d)
      else if falsy (rowsMargin opt) \<and> notIdenticalToZero (rowsMargin opt) then
        (Inr None, showMessage ''Grid row margin is invalid.'' d)
      else if falsy (columnsCount opt) \<or> lessThanZero (columnsCount opt) then
        (Inr None, showMessage ''Number of grid columns must be at least 1.'' d)
      else if falsy (columnsMargin opt) \<and> notIdenticalToZero (columnsMargin opt) then
        (Inr None, showMessage ''Grid column margin is invalid.'' d)
      else
        (case mostTopLeft d selectedLayers of
           Inl e \<Rightarrow> (Inl e, d)
         | Inr layer \<Rightarrow>
             (let layerWidth = frame_width (obj d layer);
                  layerHeight = frame_height (obj d layer);
                  layerParent = layerParentOf parentArtboard parentPage d layer;
                  d1 = fold removeFromParent selectedLayers d;
                  startX = frame_x (obj d1 layer);
                  startY = frame_y (obj d1 layer)
              in (case rowsLoop layer layerParent opt startX startY layerWidth layerHeight 0 [] d1 of
                    (Inl e, d2) \<Rightarrow> (Inl e, d2)
                  | (Inr newSelectedLayers, d2) \<Rightarrow> (Inr (Some newSelectedLayers), d2)))))"

declare columnsLoop.simps [simp del] rowsLoop.simps [simp del]

subsection \<open>Notions used to state the properties\<close>

text \<open>
  The copy that stands at row \<open>i\<close>, column \<open>j\<close> of a grid made from the object \<open>a\<close>
  with parent \<open>p\<close>, row margin \<open>rm\<close> and column margin \<open>cm\<close>; and all the copies of a
  grid of \<open>R\<close> rows and \<open>C\<close> columns, row by row.
\<close>

definition gridCopy :: "layerObj \<Rightarrow> nat \<Rightarrow> rat \<Rightarrow> rat \<Rightarrow> nat \<Rightarrow> nat \<Rightarrow> layerObj" where
  "gridCopy a p rm cm i j =
     a\<lparr>parentGroup := Some p,
       frame_x := frame_x a + of_nat j * (frame_width a + cm),
       frame_y := frame_y a + of_nat i * (frame_height a + rm)\<rparr>"

definition gridCopies :: "layerObj \<Rightarrow> nat \<Rightarrow> rat \<Rightarrow> rat \<Rightarrow> nat \<Rightarrow> nat \<Rightarrow> layerObj list" where
  "gridCopies a p rm cm R C = concat (map (\<lambda>i. map (gridCopy a p rm cm i) [0 ..< C]) [0 ..< R])"

text \<open>
  The scan for the anchor as the specification words it: a candidate replaces the
  current anchor when its x is smaller than the best x so far or its y is smaller than
  the best y so far, and both best values then become the candidate's coordinates.
\<close>

definition scanStep :: "document \<Rightarrow> nat \<times> rat \<times> rat \<Rightarrow> nat \<Rightarrow> nat \<times> rat \<times> rat" where
  "scanStep d best candidate =
     (case best of (anchor, bestX, bestY) \<Rightarrow>
        if frame_x (obj d candidate) < bestX \<or> frame_y (obj d candidate) < bestY
        then (candidate, frame_x (obj d candidate), frame_y (obj d candidate))
        else (anchor, bestX, bestY))"

text \<open>
  The resolver as the specification words it: an invalid library is skipped, and the
  search stops at the first valid library whose references contain a match, importing
  that reference. It is compared with the code below; the code is not defined through it.
\<close>

fun searchLibraries_spec ::
  "(reference \<Rightarrow> bool) \<Rightarrow> library list \<Rightarrow> event list \<Rightarrow> symbol option \<times> event list" where
  "searchLibraries_spec matches [] evs = (None, evs)"
| "searchLibraries_spec matches (library # libraries) evs =
     (if \<not> valid library then searchLibraries_spec matches libraries evs
      else
        (case filter matches (importableSymbolReferences library) of
           [] \<Rightarrow> searchLibraries_spec matches libraries (evs @ [Queried (libraryId library)])
         | symbolReference # _ \<Rightarrow>
             (Some (importResult symbolReference),
              evs @ [Queried (libraryId library), Imported symbolReference])))"

definition resolveSymbolMaster_spec ::
  "(symbol \<Rightarrow> bool) \<Rightarrow> (reference \<Rightarrow> bool) \<Rightarrow> symbol list \<Rightarrow> library list
    \<Rightarrow> masterResult \<times> event list" where
  "resolveSymbolMaster_spec isLocal matches symbols libraries =
     (case filter isLocal symbols of
        symbolMaster # _ \<Rightarrow> (returnMaster (Some symbolMaster), [])
      | [] \<Rightarrow>
          (case searchLibraries_spec matches libraries [] of
             (symbolMaster, evs) \<Rightarrow> (returnMaster symbolMaster, evs)))"

text \<open>
  What the code does with valid libraries: the first matching reference of a library,
  the events that one library gives rise to, and the master that is left in
  \<^verbatim>\<open>symbolMaster\<close> after all libraries, which is the import from the last library that
  has a match.
\<close>

definition firstMatch :: "(reference \<Rightarrow> bool) \<Rightarrow> library \<Rightarrow> reference option" where
  "firstMatch matches library =
     (case filter matches (importableSymbolReferences library) of
        [] \<Rightarrow> None
      | symbolReference # _ \<Rightarrow> Some symbolReference)"

definition eventsOf :: "(reference \<Rightarrow> bool) \<Rightarrow> library \<Rightarrow> event list" where
  "eventsOf matches library =
     Queried (libraryId library) #
       (case firstMatch matches library of None \<Rightarrow> [] | Some r \<Rightarrow> [Imported r])"

definition lastImport ::
  "(reference \<Rightarrow> bool) \<Rightarrow> library list \<Rightarrow> symbol option \<Rightarrow> symbol option" where
  "lastImport matches libraries symbolMaster =
     (case List.map_filter (firstMatch matches) libraries of
        [] \<Rightarrow> symbolMaster
      | rs \<Rightarrow> Some (importResult (last rs)))"

text \<open>The test on the class name that the type argument amounts to.\<close>

definition typeAccepts :: "string option \<Rightarrow> layer \<Rightarrow> bool" where
  "typeAccepts type l =
     (if type \<noteq> None \<and> type \<noteq> Some [] then
        (if the type = SHAPE then className l \<in> set shapeClassNames else className l = the type)
      else className l \<in> set anyClassNames)"

text \<open>
  The test that an exclusion list amounts to once it reaches the predicate, and the test
  on the name.
\<close>

definition notExcluded :: "layer list option \<Rightarrow> layer \<Rightarrow> bool" where
  "notExcluded layersToExclude l =
     (case layersToExclude of None \<Rightarrow> True | Some ls \<Rightarrow> objectID l \<notin> set (map objectID ls))"

definition nameAccepts :: "string \<Rightarrow> bool \<Rightarrow> layer \<Rightarrow> bool" where
  "nameAccepts nm exactMatch l =
     (if exactMatch then name l = Some nm
      else (case name l of None \<Rightarrow> False | Some n \<Rightarrow> like nm n))"

text \<open>
  The host that raises on \<^verbatim>\<open>SELF IN\<close> a string, as Foundation does.
\<close>

definition selfInStringRaises :: "layer \<Rightarrow> string \<Rightarrow> error + bool" where
  "selfInStringRaises l s = Inl NSInvalidArgumentException"

subsection \<open>Concrete inputs\<close>

text \<open>Two libraries that both offer a symbol named Button, with different masters.\<close>

definition buttonOne :: reference where
  "buttonOne =
     \<lparr>referenceName = ''Button'', referenceId = ''B'',
      importResult = \<lparr>symbolName = ''Button'', symbolId = ''B'', sketchObject = 11\<rparr>\<rparr>"

definition buttonTwo :: reference where
  "buttonTwo =
     \<lparr>referenceName = ''Button'', referenceId = ''B'',
      importResult = \<lparr>symbolName = ''Button'', symbolId = ''B'', sketchObject = 22\<rparr>\<rparr>"

definition libraryOne :: library where
  "libraryOne = \<lparr>libraryId = 1, valid = True, importableSymbolReferences = [buttonOne]\<rparr>"

definition libraryTwo :: library where
  "libraryTwo = \<lparr>libraryId = 2, valid = True, importableSymbolReferences = [buttonTwo]\<rparr>"

definition unreachableLibrary :: library where
  "unreachableLibrary = \<lparr>libraryId = 0, valid = False, importableSymbolReferences = []\<rparr>"

text \<open>A group with two rectangles of the same name, and a group with one text layer.\<close>

definition layerA :: layer where
  "layerA = Layer 1 (Some ''a'') ''MSRectangleShape'' []"

definition layerB :: layer where
  "layerB = Layer 2 (Some ''a'') ''MSRectangleShape'' []"

definition groupAB :: layer where
  "groupAB = Layer 0 (Some ''group'') ''MSLayerGroup'' [layerA, layerB]"

definition textFoobar :: layer where
  "textFoobar = Layer 1 (Some ''foobar'') ''MSTextLayer'' []"

definition groupFoobar :: layer where
  "groupFoobar = Layer 0 (Some ''group'') ''MSLayerGroup'' [textFoobar]"

text \<open>
  The document of the end-to-end example of the specification: an artboard (object 0)
  that holds layer A (object 1) at (10, 50) and layer B (object 2) at (0, 0), B being
  20 wide and 10 high. Both are selected.
\<close>

definition exampleDocument :: document where
  "exampleDocument =
     \<lparr>store =
        [\<lparr>attrs = ''Artboard'', frame_x = 0, frame_y = 0, frame_width = 400,
          frame_height = 300, parentGroup = None\<rparr>,
         \<lparr>attrs = ''A'', frame_x = 10, frame_y = 50, frame_width = 30, frame_height = 40,
          parentGroup = Some 0\<rparr>,
         \<lparr>attrs = ''B'', frame_x = 0, frame_y = 0, frame_width = 20, frame_height = 10,
          parentGroup = Some 0\<rparr>],
      nativeSelection = [2, 1], messages = [], calls = []\<rparr>"

definition noParent :: "document \<Rightarrow> nat \<Rightarrow> nat option" where
  "noParent d l = None"

definition exampleOpt :: gridOpt where
  "exampleOpt =
     \<lparr>rowsCount = JNum 2, rowsMargin = JNum 5, columnsCount = JNum 2, columnsMargin = JNum 5\<rparr>"

section \<open>Properties\<close>

subsection \<open>The symbol resolver\<close>

lemma searchLibraries_all_valid:
  "\<forall>l \<in> set libraries. valid l \<Longrightarrow>
   searchLibraries matches libraries symbolMaster evs =
     (Some (lastImport matches libraries symbolMaster),
      evs @ concat (map (eventsOf matches) libraries))"
proof (induction libraries arbitrary: symbolMaster evs)
  case Nil
  then show ?case
    by (simp add: lastImport_def List.map_filter_simps)
next
  case (Cons l ls)
  show ?case
  proof (cases "filter matches (importableSymbolReferences l)")
    case Nil
    with Cons show ?thesis
      by (simp add: lastImport_def List.map_filter_simps firstMatch_def eventsOf_def)
  next
    case (Cons r rs)
    with Cons.prems Cons.IH show ?thesis
      by (simp add: lastImport_def List.map_filter_simps firstMatch_def eventsOf_def
          split: list.splits)
  qed
qed

text \<open>
  Counterexample to C2. Two valid libraries both offer the symbol. The code queries and
  imports from both and returns the master of the second (object 22), where the first
  library's master is object 11; by name and by id alike.
\<close>

theorem resolver_first_match_counterexample:
  "findSymbolMasterWithName ''Button'' [] [libraryOne, libraryTwo] =
     (ReturnedObject 22, [Queried 1, Imported buttonOne, Queried 2, Imported buttonTwo])
   \<and> findSymbolMasterWithId ''B'' [] [libraryOne, libraryTwo] =
     (ReturnedObject 22, [Queried 1, Imported buttonOne, Queried 2, Imported buttonTwo])
   \<and> sketchObject (importResult buttonOne) = 11"
  by (simp add: findSymbolMasterWithName_def findSymbolMasterWithId_def returnMaster_def
      libraryOne_def libraryTwo_def buttonOne_def buttonTwo_def)

text \<open>
  C2, amended. For every document with no locally matching symbol master and every
  sequence of valid libraries, both entry points query every library in order, import
  from each library that has a matching reference the first such reference, and return
  the master of the last import (\<^verbatim>\<open>null\<close> when no library has a match). The search does
  not stop at the first match.
\<close>

theorem resolver_consults_every_valid_library:
  assumes "\<forall>l \<in> set libraries. valid l"
  shows "(filter (\<lambda>symbol. symbolName symbol = nm) symbols = [] \<longrightarrow>
          findSymbolMasterWithName nm symbols libraries =
            (returnMaster (lastImport (\<lambda>reference. referenceName reference = nm) libraries None),
             concat (map (eventsOf (\<lambda>reference. referenceName reference = nm)) libraries)))
       \<and> (filter (\<lambda>symbol. symbolId symbol = nm) symbols = [] \<longrightarrow>
          findSymbolMasterWithId nm symbols libraries =
            (returnMaster (lastImport (\<lambda>reference. referenceId reference = nm) libraries None),
             concat (map (eventsOf (\<lambda>reference. referenceId reference = nm)) libraries)))"
  using assms
  by (simp add: findSymbolMasterWithName_def findSymbolMasterWithId_def searchLibraries_all_valid)

text \<open>The amended C2 at the two libraries above.\<close>

theorem resolver_consults_every_valid_library_witness:
  "valid libraryOne \<and> valid libraryTwo
   \<and> findSymbolMasterWithName ''Button'' [] [libraryOne, libraryTwo] =
     (ReturnedObject 22, [Queried 1, Imported buttonOne, Queried 2, Imported buttonTwo])
   \<and> findSymbolMasterWithId ''B'' [] [libraryOne, libraryTwo] =
     (ReturnedObject 22, [Queried 1, Imported buttonOne, Queried 2, Imported buttonTwo])"
proof -
  have v: "\<forall>l \<in> set [libraryOne, libraryTwo]. valid l"
    by (simp add: libraryOne_def libraryTwo_def)
  show ?thesis
    using resolver_consults_every_valid_library[OF v, of "''Button''" "[]"]
      resolver_consults_every_valid_library[OF v, of "''B''" "[]"]
    by (simp add: lastImport_def eventsOf_def firstMatch_def List.map_filter_simps returnMaster_def
        libraryOne_def libraryTwo_def buttonOne_def buttonTwo_def)
qed

text \<open>
  C3. An invalid library stands before a valid library with exactly one matching
  reference. The specification has the resolver skip the first and return the master
  imported from the second (object 22). The code leaves at the invalid library with a
  bare \<^verbatim>\<open>return\<close>: the result is \<^verbatim>\<open>undefined\<close>, and the second library is neither
  queried nor imported from.
\<close>

theorem resolver_invalid_library_aborts:
  "findSymbolMasterWithName ''Button'' [] [unreachableLibrary, libraryTwo] = (ReturnedUndefined, [])
   \<and> findSymbolMasterWithId ''B'' [] [unreachableLibrary, libraryTwo] = (ReturnedUndefined, [])
   \<and> resolveSymbolMaster_spec (\<lambda>s. symbolName s = ''Button'') (\<lambda>r. referenceName r = ''Button'')
       [] [unreachableLibrary, libraryTwo] = (ReturnedObject 22, [Queried 2, Imported buttonTwo])"
  by (simp add: findSymbolMasterWithName_def findSymbolMasterWithId_def resolveSymbolMaster_spec_def
      returnMaster_def unreachableLibrary_def libraryTwo_def buttonTwo_def)

text \<open>The same holds whatever follows the invalid library and whatever was found before.\<close>

lemma searchLibraries_invalid_first:
  "\<not> valid l \<Longrightarrow> searchLibraries matches (l # ls) symbolMaster evs = (None, evs)"
  by simp

subsection \<open>The layer query\<close>

lemma filteredArray_total:
  "\<forall>l \<in> set ls. evaluateWithObject h pr l = Inr (P l) \<Longrightarrow>
   filteredArrayUsingPredicate h pr ls = Inr (filter P ls)"
  by (induction ls) auto

lemma filteredArray_sound:
  "filteredArrayUsingPredicate h pr ls = Inr res \<Longrightarrow>
   l \<in> set res \<Longrightarrow> l \<in> set ls \<and> evaluateWithObject h pr l = Inr True"
  by (induction ls arbitrary: res) (auto split: sum.splits if_splits)

lemma predicate_meaning:
  "nm \<noteq> [] \<Longrightarrow> ex = None \<or> type \<noteq> Some SHAPE \<Longrightarrow>
   (case excludeRules ex (typeRules type (nameRules nm exactMatch)) of
      (formatRules, args) \<Rightarrow>
        evaluateWithObject h (predicateWithFormat_argumentArray formatRules args) l) =
   Inr (nameAccepts nm exactMatch l \<and> typeAccepts type l \<and> notExcluded ex l)"
  by (cases type; cases "name l"; cases ex)
     (auto simp: excludeRules_def typeRules_def nameRules_def typeAccepts_def notExcluded_def
        nameAccepts_def)

lemma predicate_exact_name:
  "nm \<noteq> [] \<Longrightarrow>
   (case excludeRules ex (typeRules type (nameRules nm True)) of
      (formatRules, args) \<Rightarrow>
        evaluateWithObject h (predicateWithFormat_argumentArray formatRules args) l) = Inr True
   \<Longrightarrow> name l = Some nm"
  by (cases type; cases ex)
     (auto simp: excludeRules_def typeRules_def nameRules_def split: if_splits sum.splits)

lemma predicate_exclusion_other_types:
  "type \<noteq> Some SHAPE \<Longrightarrow>
   (case excludeRules (Some ex) (typeRules type (nameRules nm exactMatch)) of
      (formatRules, args) \<Rightarrow>
        evaluateWithObject h (predicateWithFormat_argumentArray formatRules args) l) = Inr True
   \<Longrightarrow> objectID l \<notin> objectID ` set ex"
  by (cases type)
     (auto simp: excludeRules_def typeRules_def nameRules_def split: if_splits sum.splits)

lemma findLayers_meaning:
  assumes "nm \<noteq> []" and "ex = None \<or> type \<noteq> Some SHAPE"
  shows "findLayersInLayer h nm exactMatch type rootLayer subLayersOnly ex =
     Inr (filter (\<lambda>l. nameAccepts nm exactMatch l \<and> typeAccepts type l \<and> notExcluded ex l)
            (if subLayersOnly then layers rootLayer else children rootLayer))"
proof -
  obtain fr args where ra: "excludeRules ex (typeRules type (nameRules nm exactMatch)) = (fr, args)"
    by (cases "excludeRules ex (typeRules type (nameRules nm exactMatch))")
  have "evaluateWithObject h (predicateWithFormat_argumentArray fr args) l =
      Inr (nameAccepts nm exactMatch l \<and> typeAccepts type l \<and> notExcluded ex l)" for l
    using predicate_meaning[OF assms, where exactMatch=exactMatch and h=h and l=l] ra
    by simp
  then show ?thesis
    unfolding findLayersInLayer_def ra
    by (simp add: filteredArray_total)
qed

lemma findLayers_exact_only:
  assumes "nm \<noteq> []"
    and "findLayersInLayer h nm True type rootLayer subLayersOnly ex = Inr res"
    and "l \<in> set res"
  shows "name l = Some nm"
proof -
  obtain fr args where ra: "excludeRules ex (typeRules type (nameRules nm True)) = (fr, args)"
    by (cases "excludeRules ex (typeRules type (nameRules nm True))")
  with assms(2) have "filteredArrayUsingPredicate h (predicateWithFormat_argumentArray fr args)
      (if subLayersOnly then layers rootLayer else children rootLayer) = Inr res"
    by (simp add: findLayersInLayer_def)
  from filteredArray_sound[OF this assms(3)]
  have "evaluateWithObject h (predicateWithFormat_argumentArray fr args) l = Inr True"
    by simp
  with predicate_exact_name[OF assms(1), where ex=ex and type=type and h=h and l=l] ra
  show ?thesis
    by simp
qed

text \<open>
  With any type but \<open>SHAPE\<close> the exclusion list does its work: no layer of the result
  has the identity of an excluded layer.
\<close>

lemma findLayers_exclusion_other_types:
  assumes "type \<noteq> Some SHAPE"
    and "findLayersInLayer h nm exactMatch type rootLayer subLayersOnly (Some ex) = Inr res"
    and "l \<in> set res"
  shows "objectID l \<notin> objectID ` set ex"
proof -
  obtain fr args where
    ra: "excludeRules (Some ex) (typeRules type (nameRules nm exactMatch)) = (fr, args)"
    by (cases "excludeRules (Some ex) (typeRules type (nameRules nm exactMatch))")
  with assms(2) have "filteredArrayUsingPredicate h (predicateWithFormat_argumentArray fr args)
      (if subLayersOnly then layers rootLayer else children rootLayer) = Inr res"
    by (simp add: findLayersInLayer_def)
  from filteredArray_sound[OF this assms(3)]
  have "evaluateWithObject h (predicateWithFormat_argumentArray fr args) l = Inr True"
    by simp
  with predicate_exclusion_other_types[OF assms(1), where ex=ex and nm=nm
      and exactMatch=exactMatch and h=h and l=l] ra
  show ?thesis
    by simp
qed

text \<open>
  With the type \<open>SHAPE\<close> the exclusion list never reaches the predicate: the type
  string, pushed without a placeholder of its own, takes the placeholder of
  \<^verbatim>\<open>NOT (SELF IN %@)\<close>. Two calls that differ in the exclusion list only give the same
  result.
\<close>

lemma findLayers_shape_ignores_exclusion:
  "findLayersInLayer h nm exactMatch (Some SHAPE) rootLayer subLayersOnly (Some e1) =
   findLayersInLayer h nm exactMatch (Some SHAPE) rootLayer subLayersOnly (Some e2)"
  by (auto simp: findLayersInLayer_def excludeRules_def typeRules_def nameRules_def SHAPE_def)

text \<open>
  On the host that raises, the predicate built for the type \<open>SHAPE\<close> with an
  exclusion list is true of no layer: a layer that passes the tests on name and class
  meets \<^verbatim>\<open>SELF IN\<close> the type string, and the query fails. So for every type a layer
  of which the predicate is true is not in the exclusion list.
\<close>

lemma predicate_exclusion_raising:
  "(case excludeRules (Some ex) (typeRules type (nameRules nm exactMatch)) of
      (formatRules, args) \<Rightarrow>
        evaluateWithObject selfInStringRaises
          (predicateWithFormat_argumentArray formatRules args) l) = Inr True
   \<Longrightarrow> objectID l \<notin> objectID ` set ex"
  by (cases type)
     (auto simp: excludeRules_def typeRules_def nameRules_def selfInStringRaises_def
        split: if_splits sum.splits)

lemma findLayers_exclusion_raising:
  assumes "findLayersInLayer selfInStringRaises nm exactMatch type rootLayer subLayersOnly (Some ex)
      = Inr res"
    and "l \<in> set res"
  shows "objectID l \<notin> objectID ` set ex"
proof -
  obtain fr args where
    ra: "excludeRules (Some ex) (typeRules type (nameRules nm exactMatch)) = (fr, args)"
    by (cases "excludeRules (Some ex) (typeRules type (nameRules nm exactMatch))")
  with assms(1) have "filteredArrayUsingPredicate selfInStringRaises
      (predicateWithFormat_argumentArray fr args)
      (if subLayersOnly then layers rootLayer else children rootLayer) = Inr res"
    by (simp add: findLayersInLayer_def)
  from filteredArray_sound[OF this assms(2)]
  have "evaluateWithObject selfInStringRaises (predicateWithFormat_argumentArray fr args) l = Inr True"
    by simp
  with predicate_exclusion_raising[where ex=ex and type=type and nm=nm
      and exactMatch=exactMatch and l=l] ra
  show ?thesis
    by simp
qed

text \<open>
  C4. For every name, exact-match flag, type (the type \<open>SHAPE\<close> and the omitted type
  included), root layer and scope flag, whenever a call with an exclusion list returns,
  its result holds no layer whose identity is that of a layer in the list: on the host
  that raises on \<^verbatim>\<open>SELF IN\<close> a string for every type, and on every host for every
  type but \<open>SHAPE\<close>.
\<close>

theorem findLayers_never_returns_excluded:
  "(\<forall>res. findLayersInLayer selfInStringRaises nm exactMatch type rootLayer subLayersOnly
            (Some layersToExclude) = Inr res
          \<longrightarrow> (\<forall>l \<in> set res. objectID l \<notin> objectID ` set layersToExclude))
   \<and> (type \<noteq> Some SHAPE \<longrightarrow>
        (\<forall>res. findLayersInLayer h nm exactMatch type rootLayer subLayersOnly
            (Some layersToExclude) = Inr res
          \<longrightarrow> (\<forall>l \<in> set res. objectID l \<notin> objectID ` set layersToExclude)))"
  using findLayers_exclusion_raising findLayers_exclusion_other_types
  by blast

text \<open>
  C4 on the group with the rectangles A and B, B excluded: with the type
  \<^verbatim>\<open>MSRectangleShape\<close> and with the type omitted the result is A alone; with the type
  \<open>SHAPE\<close> the query raises and returns nothing.
\<close>

theorem findLayers_never_returns_excluded_witness:
  "findLayersInLayer selfInStringRaises ''a'' True (Some ''MSRectangleShape'') groupAB True
       (Some [layerB]) = Inr [layerA]
   \<and> objectID layerA \<notin> objectID ` set [layerB]
   \<and> findLayersInLayer selfInStringRaises ''a'' True ANY groupAB False (Some [layerB]) =
       Inr [layerA]
   \<and> findLayersInLayer selfInStringRaises ''a'' True (Some SHAPE) groupAB True (Some [layerB]) =
       Inl NSInvalidArgumentException"
proof -
  have run: "findLayersInLayer selfInStringRaises ''a'' True (Some ''MSRectangleShape'') groupAB True
       (Some [layerB]) = Inr [layerA]"
    by (simp add: findLayersInLayer_def excludeRules_def typeRules_def nameRules_def SHAPE_def
        groupAB_def layerA_def layerB_def)
  have any: "findLayersInLayer selfInStringRaises ''a'' True ANY groupAB False (Some [layerB]) =
       Inr [layerA]"
    by (simp add: findLayersInLayer_def excludeRules_def typeRules_def nameRules_def ANY_def
        anyClassNames_def groupAB_def layerA_def layerB_def)
  have shape: "findLayersInLayer selfInStringRaises ''a'' True (Some SHAPE) groupAB True
       (Some [layerB]) = Inl NSInvalidArgumentException"
    by (simp add: findLayersInLayer_def excludeRules_def typeRules_def nameRules_def SHAPE_def
        shapeClassNames_def groupAB_def layerA_def layerB_def selfInStringRaises_def)
  from findLayers_never_returns_excluded[where nm="''a''" and exactMatch=True
      and type="Some ''MSRectangleShape''" and rootLayer=groupAB and subLayersOnly=True
      and layersToExclude="[layerB]"] run
  have "\<forall>l \<in> set [layerA]. objectID l \<notin> objectID ` set [layerB]"
    by blast
  then have "objectID layerA \<notin> objectID ` set [layerB]"
    by simp
  with run any shape show ?thesis
    by blast
qed

text \<open>
  Counterexample to C8. A text layer named \<^verbatim>\<open>foobar\<close> lies in the searched group and
  its name contains \<^verbatim>\<open>foo\<close>, yet the query for \<^verbatim>\<open>foo\<close> without exact match, for text
  layers, returns nothing: \<^verbatim>\<open>like\<close> matches the whole name.
\<close>

theorem findLayers_substring_counterexample:
  "findLayersInLayer selfInStringRaises ''foo'' False (Some TEXT) groupFoobar True None = Inr []
   \<and> layers groupFoobar = [textFoobar]
   \<and> name textFoobar = Some ''foobar''
   \<and> className textFoobar = TEXT
   \<and> includesString ''foo'' ''foobar''"
  by (simp add: findLayersInLayer_def excludeRules_def typeRules_def nameRules_def TEXT_def
      SHAPE_def groupFoobar_def textFoobar_def)

text \<open>
  C8, amended. For every root layer and every non-empty name \<open>nm\<close>: with exact match,
  whatever the other arguments, every returned layer has the name \<open>nm\<close>. When no
  exclusion list is given, or the type is not \<open>SHAPE\<close>, the result with exact match is
  exactly the candidates named \<open>nm\<close> that pass the type test and are not excluded, and
  the result without exact match is exactly the candidates whose name matches \<open>nm\<close> as a
  \<^verbatim>\<open>like\<close> pattern (the whole name, \<^verbatim>\<open>*\<close> and \<^verbatim>\<open>?\<close> being wildcards), that pass the
  type test and are not excluded. It is not the layers whose name contains \<open>nm\<close>.
\<close>

theorem findLayers_name_filter:
  assumes "nm \<noteq> []"
  shows "(\<forall>res. findLayersInLayer h nm True type rootLayer subLayersOnly layersToExclude = Inr res
            \<longrightarrow> (\<forall>l \<in> set res. name l = Some nm))
       \<and> (layersToExclude = None \<or> type \<noteq> Some SHAPE \<longrightarrow>
            findLayersInLayer h nm True type rootLayer subLayersOnly layersToExclude =
              Inr (filter (\<lambda>l. name l = Some nm \<and> typeAccepts type l
                                \<and> notExcluded layersToExclude l)
                     (if subLayersOnly then layers rootLayer else children rootLayer))
          \<and> findLayersInLayer h nm False type rootLayer subLayersOnly layersToExclude =
              Inr (filter (\<lambda>l. (case name l of None \<Rightarrow> False | Some n \<Rightarrow> like nm n)
                                \<and> typeAccepts type l \<and> notExcluded layersToExclude l)
                     (if subLayersOnly then layers rootLayer else children rootLayer)))"
  using findLayers_exact_only[OF assms]
    findLayers_meaning[OF assms, where h=h and exactMatch=True and ex=layersToExclude and type=type]
    findLayers_meaning[OF assms, where h=h and exactMatch=False and ex=layersToExclude and type=type]
  by (auto simp: nameAccepts_def)

text \<open>The amended C8 on the group with the text layer \<^verbatim>\<open>foobar\<close>.\<close>

theorem findLayers_name_filter_witness:
  "''foobar'' \<noteq> []
   \<and> findLayersInLayer selfInStringRaises ''foobar'' True ANY groupFoobar True (Some [layerB]) =
       Inr [textFoobar]
   \<and> name textFoobar = Some ''foobar''
   \<and> findLayersInLayer selfInStringRaises ''foo*'' False ANY groupFoobar True None =
       Inr [textFoobar]
   \<and> findLayersInLayer selfInStringRaises ''foo'' False ANY groupFoobar True None = Inr []
   \<and> findLayersInLayer selfInStringRaises ''foo*'' False (Some TEXT) groupFoobar True
       (Some [textFoobar]) = Inr []"
proof -
  have ne: "''foobar'' \<noteq> []" "''foo*'' \<noteq> []" "''foo'' \<noteq> []"
    by simp_all
  have ok: "Some [layerB] = None \<or> ANY \<noteq> Some SHAPE" "None = None \<or> ANY \<noteq> Some SHAPE"
    "Some [textFoobar] = None \<or> Some TEXT \<noteq> Some SHAPE"
    by (simp_all add: ANY_def TEXT_def SHAPE_def)
  note t1 = findLayers_name_filter[OF ne(1), where h=selfInStringRaises and type=ANY
      and rootLayer=groupFoobar and subLayersOnly=True and layersToExclude="Some [layerB]"]
  have exact: "findLayersInLayer selfInStringRaises ''foobar'' True ANY groupFoobar True (Some [layerB]) =
      Inr [textFoobar]"
    using t1 ok(1)
    by (simp add: typeAccepts_def notExcluded_def ANY_def groupFoobar_def textFoobar_def
        layerB_def anyClassNames_def)
  have "\<forall>l \<in> set [textFoobar]. name l = Some ''foobar''"
    using t1 exact by blast
  then have named: "name textFoobar = Some ''foobar''"
    by simp
  show ?thesis
    using exact named ok(2,3)
      findLayers_name_filter[OF ne(2), where h=selfInStringRaises and type=ANY
        and rootLayer=groupFoobar and subLayersOnly=True and layersToExclude=None]
      findLayers_name_filter[OF ne(3), where h=selfInStringRaises and type=ANY
        and rootLayer=groupFoobar and subLayersOnly=True and layersToExclude=None]
      findLayers_name_filter[OF ne(2), where h=selfInStringRaises and type="Some TEXT"
        and rootLayer=groupFoobar and subLayersOnly=True and layersToExclude="Some [textFoobar]"]
    by (simp add: typeAccepts_def notExcluded_def ANY_def TEXT_def SHAPE_def groupFoobar_def
        textFoobar_def anyClassNames_def)
qed

subsection \<open>Selection\<close>

lemma deselect_each:
  "nativeSelection (fold (\<lambda>l. select_byExtendingSelection l False False) ls d) =
     filter (\<lambda>x. x \<notin> set ls) (nativeSelection d)"
proof (induction ls arbitrary: d)
  case Nil
  then show ?case by simp
next
  case (Cons x xs)
  have "filter (\<lambda>y. y \<notin> set xs) (removeAll x ys) = filter (\<lambda>y. y \<notin> set (x # xs)) ys"
    for ys :: "nat list"
    by (induction ys) auto
  with Cons show ?case
    by (simp add: select_byExtendingSelection_def)
qed

lemma select_each:
  "distinct (nativeSelection d @ ls) \<Longrightarrow>
   nativeSelection (fold (\<lambda>l. select_byExtendingSelection l True True) ls d) =
     nativeSelection d @ ls"
  by (induction ls arbitrary: d) (auto simp: select_byExtendingSelection_def)

lemma selectLayers_replaces:
  assumes "distinct ls"
  shows "nativeSelection (selectLayers ls d) = ls"
proof -
  let ?d0 = "fold (\<lambda>l. select_byExtendingSelection l False False) (getSelectedLayers d) d"
  have empty: "nativeSelection ?d0 = []"
    by (simp add: deselect_each getSelectedLayers_def convertToJSArray_def)
  with assms have "distinct (nativeSelection ?d0 @ ls)"
    by simp
  from select_each[OF this] empty show ?thesis
    by (simp add: selectLayers_def)
qed

text \<open>
  C7. \<^verbatim>\<open>getSelectedLayers\<close> returns the native selection reversed; selecting the
  reverse of what it returned restores the native selection; and \<^verbatim>\<open>selectLayers\<close>
  replaces the selection: whatever was selected before, afterwards exactly the given
  layers are, in the given order. A selection holds no layer twice, which is the
  hypothesis on the native selection and on the layers given.
\<close>

theorem selection_round_trip:
  assumes "distinct (nativeSelection d)"
  shows "getSelectedLayers d = rev (nativeSelection d)
       \<and> nativeSelection (selectLayers (rev (getSelectedLayers d)) d) = nativeSelection d
       \<and> (\<forall>ls. distinct ls \<longrightarrow> nativeSelection (selectLayers ls d) = ls)"
proof -
  have revrev: "rev (getSelectedLayers d) = nativeSelection d"
    by (simp add: getSelectedLayers_def convertToJSArray_def)
  have "nativeSelection (selectLayers (nativeSelection d) d) = nativeSelection d"
    using assms by (rule selectLayers_replaces)
  then show ?thesis
    by (simp add: revrev selectLayers_replaces) (simp add: getSelectedLayers_def convertToJSArray_def)
qed

text \<open>C7 on the example document, whose native selection is B, A.\<close>

theorem selection_round_trip_witness:
  "distinct (nativeSelection exampleDocument)
   \<and> getSelectedLayers exampleDocument = [1, 2]
   \<and> nativeSelection (selectLayers [2, 1] exampleDocument) = [2, 1]
   \<and> nativeSelection (selectLayers [0] exampleDocument) = [0]"
proof -
  have h: "distinct (nativeSelection exampleDocument)"
    by (simp add: exampleDocument_def)
  have g: "getSelectedLayers exampleDocument = [1, 2]"
    using selection_round_trip[OF h] by (simp add: exampleDocument_def)
  have "nativeSelection (selectLayers (rev (getSelectedLayers exampleDocument)) exampleDocument)
      = nativeSelection exampleDocument"
    using selection_round_trip[OF h] by blast
  moreover have "nativeSelection exampleDocument = [2, 1]"
    by (simp add: exampleDocument_def)
  ultimately have r: "nativeSelection (selectLayers [2, 1] exampleDocument) = [2, 1]"
    by (simp add: g)
  have "distinct [0::nat] \<longrightarrow> nativeSelection (selectLayers [0] exampleDocument) = [0]"
    using selection_round_trip[OF h] by blast
  then show ?thesis
    using h g r by simp
qed

subsection \<open>Grid creation\<close>

text \<open>One turn of the inner loop appends one object to the store and records one call.\<close>

lemma iteration_body:
  assumes "layer < length (store d)"
  shows "setY (length (store d)) y (setX (length (store d)) x
           (addLayers p [length (store d)] (snd (copyLayer layer d)))) =
         d\<lparr>store := store d @ [(obj d layer)\<lparr>parentGroup := Some p, frame_x := x, frame_y := y\<rparr>],
           calls := calls d @ [AddLayers p [length (store d)]]\<rparr>"
  using assms
  by (simp add: setY_def setX_def addLayers_def copyLayer_def obj_def)

text \<open>The loop tests with a counter \<open>j\<close> run for the counters below the ceiling of the count.\<close>

lemma loop_bound: "(of_nat j < (c::rat)) = (j < nat \<lceil>c\<rceil>)"
proof -
  have "(of_nat j < c) = (int j < \<lceil>c\<rceil>)"
    by (simp add: less_ceiling_iff)
  then show ?thesis by linarith
qed

text \<open>
  The inner loop in closed form, when a parent was found: the new objects take the next
  free places of the store, one for each remaining column.
\<close>

lemma columnsLoop_closed:
  "layer < length (store d) \<Longrightarrow>
   columnsLoop layer (Some p) opt startX w y j ns d =
     (Inr (ns @ [length (store d) ..< length (store d) + (nat \<lceil>num (columnsCount opt)\<rceil> - j)]),
      d\<lparr>store := store d @
           map (\<lambda>k. (obj d layer)\<lparr>parentGroup := Some p,
                  frame_x := startX + of_nat k * (w + num (columnsMargin opt)), frame_y := y\<rparr>)
             [j ..< nat \<lceil>num (columnsCount opt)\<rceil>],
        calls := calls d @ map (\<lambda>k. AddLayers p [k])
           [length (store d) ..< length (store d) + (nat \<lceil>num (columnsCount opt)\<rceil> - j)]\<rparr>)"
proof (induction layer "Some p :: nat option" opt startX w y j ns d rule: columnsLoop.induct)
  case (1 layer opt startX layerWidth y j newSelectedLayers d)
  let ?C = "nat \<lceil>num (columnsCount opt)\<rceil>"
  let ?L = "length (store d)"
  show ?case
  proof (cases "j < ?C")
    case False
    then have "\<not> of_nat j < num (columnsCount opt)"
      by (simp add: loop_bound)
    with False show ?thesis
      by (subst columnsLoop.simps) simp
  next
    case True
    then have lt: "of_nat j < num (columnsCount opt)"
      by (simp add: loop_bound)
    let ?x = "startX + of_nat j * (layerWidth + num (columnsMargin opt))"
    let ?d4 = "setY ?L y (setX ?L ?x (addLayers p [?L] (snd (copyLayer layer d))))"
    have d4: "?d4 = d\<lparr>store := store d @ [(obj d layer)\<lparr>parentGroup := Some p, frame_x := ?x, frame_y := y\<rparr>],
           calls := calls d @ [AddLayers p [?L]]\<rparr>"
      using "1.prems" by (rule iteration_body)
    have cl: "copyLayer layer d = (?L, snd (copyLayer layer d))"
      by (simp add: copyLayer_def)
    have step: "columnsLoop layer (Some p) opt startX layerWidth y j newSelectedLayers d =
       columnsLoop layer (Some p) opt startX layerWidth y (Suc j) (newSelectedLayers @ [?L]) ?d4"
      using lt by (subst columnsLoop.simps, subst cl) simp
    have len: "layer < length (store ?d4)"
      using "1.prems" by (simp add: d4)
    have same: "obj ?d4 layer = obj d layer"
      using "1.prems" by (simp add: d4 obj_def nth_append)
    have ih: "columnsLoop layer (Some p) opt startX layerWidth y (Suc j) (newSelectedLayers @ [?L]) ?d4 =
     (Inr ((newSelectedLayers @ [?L]) @ [length (store ?d4) ..< length (store ?d4) + (?C - Suc j)]),
      ?d4\<lparr>store := store ?d4 @
           map (\<lambda>k. (obj ?d4 layer)\<lparr>parentGroup := Some p,
                  frame_x := startX + of_nat k * (layerWidth + num (columnsMargin opt)), frame_y := y\<rparr>)
             [Suc j ..< ?C],
        calls := calls ?d4 @ map (\<lambda>k. AddLayers p [k])
           [length (store ?d4) ..< length (store ?d4) + (?C - Suc j)]\<rparr>)"
      using "1.hyps"[OF lt cl[symmetric] refl len] .
    have u1: "[j ..< ?C] = j # [Suc j ..< ?C]"
      using True by (simp add: upt_conv_Cons)
    have u2: "[?L ..< ?L + (?C - j)] = ?L # [Suc ?L ..< Suc ?L + (?C - Suc j)]"
      using True by (simp add: upt_conv_Cons Suc_diff_Suc)
    show ?thesis
      unfolding step ih same u1 u2
      by (simp add: d4)
  qed
qed

text \<open>The outer loop in closed form: one such row for each remaining row.\<close>

lemma rowsLoop_closed:
  "layer < length (store d) \<Longrightarrow>
   rowsLoop layer (Some p) opt startX startY w h i ns d =
     (Inr (ns @ [length (store d) ..< length (store d) +
              (nat \<lceil>num (rowsCount opt)\<rceil> - i) * nat \<lceil>num (columnsCount opt)\<rceil>]),
      d\<lparr>store := store d @
           concat (map (\<lambda>r. map (\<lambda>k. (obj d layer)\<lparr>parentGroup := Some p,
                  frame_x := startX + of_nat k * (w + num (columnsMargin opt)),
                  frame_y := startY + of_nat r * (h + num (rowsMargin opt))\<rparr>)
             [0 ..< nat \<lceil>num (columnsCount opt)\<rceil>]) [i ..< nat \<lceil>num (rowsCount opt)\<rceil>]),
        calls := calls d @ map (\<lambda>k. AddLayers p [k])
           [length (store d) ..< length (store d) +
              (nat \<lceil>num (rowsCount opt)\<rceil> - i) * nat \<lceil>num (columnsCount opt)\<rceil>]\<rparr>)"
proof (induction layer "Some p :: nat option" opt startX startY w h i ns d rule: rowsLoop.induct)
  case (1 layer opt startX startY layerWidth layerHeight i newSelectedLayers d)
  let ?R = "nat \<lceil>num (rowsCount opt)\<rceil>"
  let ?C = "nat \<lceil>num (columnsCount opt)\<rceil>"
  let ?L = "length (store d)"
  show ?case
  proof (cases "i < ?R")
    case False
    then have "\<not> of_nat i < num (rowsCount opt)"
      by (simp add: loop_bound)
    with False show ?thesis
      by (subst rowsLoop.simps) simp
  next
    case True
    then have lt: "of_nat i < num (rowsCount opt)"
      by (simp add: loop_bound)
    let ?y = "startY + of_nat i * (layerHeight + num (rowsMargin opt))"
    let ?row = "map (\<lambda>k. (obj d layer)\<lparr>parentGroup := Some p,
                  frame_x := startX + of_nat k * (layerWidth + num (columnsMargin opt)),
                  frame_y := ?y\<rparr>) [0 ..< ?C]"
    let ?ns = "newSelectedLayers @ [?L ..< ?L + ?C]"
    let ?d' = "d\<lparr>store := store d @ ?row,
                 calls := calls d @ map (\<lambda>k. AddLayers p [k]) [?L ..< ?L + ?C]\<rparr>"
    have col: "columnsLoop layer (Some p) opt startX layerWidth ?y 0 newSelectedLayers d = (Inr ?ns, ?d')"
      using columnsLoop_closed[OF "1.prems", of p opt startX layerWidth ?y 0 newSelectedLayers]
      by (simp only: diff_zero)
    have step: "rowsLoop layer (Some p) opt startX startY layerWidth layerHeight i newSelectedLayers d =
       rowsLoop layer (Some p) opt startX startY layerWidth layerHeight (Suc i) ?ns ?d'"
      using lt by (subst rowsLoop.simps, subst col) simp
    have len: "layer < length (store ?d')"
      using "1.prems" by simp
    have same: "obj ?d' layer = obj d layer"
      using "1.prems" by (simp add: obj_def nth_append)
    note ih = "1.hyps"[OF lt col[symmetric] refl len]
    have u1: "[i ..< ?R] = i # [Suc i ..< ?R]"
      using True by (simp add: upt_conv_Cons)
    have "?R - i = Suc (?R - Suc i)"
      using True by simp
    then have ar: "(?R - i) * ?C = ?C + (?R - Suc i) * ?C"
      by (simp only: mult_Suc)
    have u2: "[?L ..< ?L + (?R - i) * ?C] = [?L ..< ?L + ?C] @ [?L + ?C ..< ?L + ?C + (?R - Suc i) * ?C]"
      using upt_add_eq_append[of ?L "?L + ?C" "(?R - Suc i) * ?C"]
      by (simp only: ar add.assoc le_add1)
    show ?thesis
      unfolding step ih same u1 u2
      by simp
  qed
qed

text \<open>Removing the selected layers: what it does to each field of the document.\<close>

lemma fold_removeFromParent_length:
  "length (store (fold removeFromParent ls d)) = length (store d)"
  by (induction ls arbitrary: d) (simp_all add: removeFromParent_def)

lemma fold_removeFromParent_obj:
  "l < length (store d) \<Longrightarrow>
   obj (fold removeFromParent ls d) l =
     (if l \<in> set ls then (obj d l)\<lparr>parentGroup := None\<rparr> else obj d l)"
proof (induction ls arbitrary: d)
  case Nil
  then show ?case by simp
next
  case (Cons x xs)
  have len: "l < length (store (removeFromParent x d))"
    using Cons.prems by (simp add: removeFromParent_def)
  show ?case
    using Cons.prems Cons.IH[OF len]
    by (cases "x < length (store d)")
       (auto simp: removeFromParent_def obj_def nth_list_update)
qed

lemma fold_removeFromParent_calls:
  "calls (fold removeFromParent ls d) = calls d @ map RemoveFromParent ls"
  by (induction ls arbitrary: d) (simp_all add: removeFromParent_def)

lemma fold_removeFromParent_rest:
  "messages (fold removeFromParent ls d) = messages d"
  "nativeSelection (fold removeFromParent ls d) = nativeSelection d"
  by (induction ls arbitrary: d) (simp_all add: removeFromParent_def)

text \<open>The anchor is one of the selected layers.\<close>

lemma anchorLoop_member:
  "fst (anchorLoop d ls (l, sx, sy)) \<in> insert l (set ls)"
  by (induction ls arbitrary: l sx sy) auto

lemma mostTopLeft_member:
  assumes "mostTopLeft d ls = Inr a"
  shows "a \<in> set ls"
proof (cases ls)
  case Nil
  with assms show ?thesis by (simp add: mostTopLeft_def)
next
  case (Cons first rest)
  with assms have "a = fst (anchorLoop d ls (first, frame_x (obj d first), frame_y (obj d first)))"
    by (simp add: mostTopLeft_def)
  moreover have "first \<in> set ls" using Cons by simp
  ultimately show ?thesis
    using anchorLoop_member[of d ls first "frame_x (obj d first)" "frame_y (obj d first)"]
    by auto
qed

text \<open>
  \<^verbatim>\<open>createGrid\<close> on an accepted specification, a selection of layers of the document and
  an anchor with a parent: the result and the document it leaves.
\<close>

lemma createGrid_accepted:
  assumes opt: "rowsCount opt = JNum r" "0 < r" "rowsMargin opt = JNum rm"
      "columnsCount opt = JNum c" "0 < c" "columnsMargin opt = JNum cm"
    and anchor: "mostTopLeft d ls = Inr a"
    and inrange: "\<forall>l \<in> set ls. l < length (store d)"
    and parent: "layerParentOf parentArtboard parentPage d a = Some p"
  shows "createGrid parentArtboard parentPage ls opt d =
     (Inr (Some [length (store d) ..< length (store d) + nat \<lceil>r\<rceil> * nat \<lceil>c\<rceil>]),
      (fold removeFromParent ls d)
        \<lparr>store := store (fold removeFromParent ls d) @ gridCopies (obj d a) p rm cm (nat \<lceil>r\<rceil>) (nat \<lceil>c\<rceil>),
         calls := calls d @ map RemoveFromParent ls @
           map (\<lambda>k. AddLayers p [k]) [length (store d) ..< length (store d) + nat \<lceil>r\<rceil> * nat \<lceil>c\<rceil>]\<rparr>)"
proof -
  let ?d1 = "fold removeFromParent ls d"
  have mem: "a \<in> set ls" using anchor by (rule mostTopLeft_member)
  with inrange have a: "a < length (store d)" by simp
  then have a1: "a < length (store ?d1)" by (simp add: fold_removeFromParent_length)
  have o1: "obj ?d1 a = (obj d a)\<lparr>parentGroup := None\<rparr>"
    using a mem by (simp add: fold_removeFromParent_obj)
  have rows: "rowsLoop a (Some p) opt (frame_x (obj ?d1 a)) (frame_y (obj ?d1 a))
       (frame_width (obj d a)) (frame_height (obj d a)) 0 [] ?d1 =
     (Inr [length (store d) ..< length (store d) + nat \<lceil>r\<rceil> * nat \<lceil>c\<rceil>],
      ?d1\<lparr>store := store ?d1 @ gridCopies (obj d a) p rm cm (nat \<lceil>r\<rceil>) (nat \<lceil>c\<rceil>),
         calls := calls d @ map RemoveFromParent ls @
           map (\<lambda>k. AddLayers p [k]) [length (store d) ..< length (store d) + nat \<lceil>r\<rceil> * nat \<lceil>c\<rceil>]\<rparr>)"
    unfolding rowsLoop_closed[OF a1] o1
    by (simp add: opt fold_removeFromParent_length fold_removeFromParent_calls
        gridCopies_def gridCopy_def[abs_def])
  have pos: "r \<noteq> 0" "\<not> r < 0" "c \<noteq> 0" "\<not> c < 0"
    using opt(2,5) by simp_all
  show ?thesis
    unfolding createGrid_def
    by (simp add: opt(1,3,4,6) pos anchor parent Let_def rows)
qed

lemma anchorLoop_foldl: "anchorLoop d ls best = foldl (scanStep d) best ls"
  by (induction ls arbitrary: best) (auto simp: scanStep_def)

text \<open>
  Indexing a grid that is stored row by row.
\<close>

lemma nth_grid:
  "i < R \<Longrightarrow> j < C \<Longrightarrow>
   concat (map (\<lambda>r. map (f r) [0 ..< C]) [0 ..< R]) ! (i * C + j) = f i j"
proof (induction R)
  case 0
  then show ?case by simp
next
  case (Suc R)
  have len: "length (concat (map (\<lambda>r. map (f r) [0 ..< C]) [0 ..< R])) = R * C"
    by (induction R) simp_all
  show ?case
  proof (cases "i < R")
    case True
    then have "Suc i \<le> R" by simp
    then have "Suc i * C \<le> R * C" by (rule mult_le_mono1)
    with Suc.prems(2) have "i * C + j < R * C" by simp
    with True Suc show ?thesis
      by (simp add: nth_append len)
  next
    case False
    with Suc.prems have "i = R" by simp
    with Suc.prems show ?thesis
      by (simp add: nth_append len)
  qed
qed

lemma length_gridCopies: "length (gridCopies a p rm cm R C) = R * C"
  unfolding gridCopies_def by (induction R) simp_all

lemma nth_gridCopies:
  "i < R \<Longrightarrow> j < C \<Longrightarrow> gridCopies a p rm cm R C ! (i * C + j) = gridCopy a p rm cm i j"
  unfolding gridCopies_def by (rule nth_grid)

lemma grid_index: "i < R \<Longrightarrow> j < C \<Longrightarrow> i * C + j < R * (C::nat)"
proof -
  assume "i < R" "j < C"
  then have "Suc i \<le> R" by simp
  then have "Suc i * C \<le> R * C" by (rule mult_le_mono1)
  with \<open>j < C\<close> show ?thesis by simp
qed

text \<open>
  The checks at the head of \<^verbatim>\<open>createGrid\<close>: a specification that passes them never
  gives the bare \<^verbatim>\<open>return\<close>, and one that fails any of them gives it, with one message
  and nothing else changed.
\<close>

lemma createGrid_never_none_when_valid:
  assumes "rowsCount opt = JNum r" "0 < r" "rowsMargin opt = JNum rm"
      "columnsCount opt = JNum c" "0 < c" "columnsMargin opt = JNum cm"
  shows "fst (createGrid parentArtboard parentPage ls opt d) \<noteq> Inr None"
proof -
  have pos: "r \<noteq> 0" "\<not> r < 0" "c \<noteq> 0" "\<not> c < 0"
    using assms(2,5) by simp_all
  show ?thesis
    unfolding createGrid_def
    by (simp add: assms(1,3,4,6) pos Let_def split: sum.splits prod.splits)
qed

lemma createGrid_rejected:
  assumes "falsy (rowsCount opt) \<or> lessThanZero (rowsCount opt)
         \<or> falsy (rowsMargin opt) \<and> notIdenticalToZero (rowsMargin opt)
         \<or> falsy (columnsCount opt) \<or> lessThanZero (columnsCount opt)
         \<or> falsy (columnsMargin opt) \<and> notIdenticalToZero (columnsMargin opt)"
  shows "\<exists>m. createGrid parentArtboard parentPage ls opt d = (Inr None, d\<lparr>messages := messages d @ [m]\<rparr>)"
  using assms unfolding createGrid_def showMessage_def
  by auto

text \<open>
  Facts about the example document.
\<close>

lemma example_anchor: "mostTopLeft exampleDocument [1, 2] = Inr 2"
  by (simp add: mostTopLeft_def exampleDocument_def obj_def)

lemma example_in_range: "\<forall>l \<in> set [1, 2]. l < length (store exampleDocument)"
  by (simp add: exampleDocument_def)

lemma example_parent: "layerParentOf noParent noParent exampleDocument 2 = Some 0"
  by (simp add: exampleDocument_def layerParentOf_def obj_def)

lemma example_length: "length (store exampleDocument) = 3"
  by (simp add: exampleDocument_def)

lemma example_B:
  "obj exampleDocument 2 =
     \<lparr>attrs = ''B'', frame_x = 0, frame_y = 0, frame_width = 20, frame_height = 10,
      parentGroup = Some 0\<rparr>"
  by (simp add: exampleDocument_def obj_def)

text \<open>
  The anchor that \<^verbatim>\<open>createGrid\<close> takes is the one the scan of the specification
  leaves, and the parent it captures is the parent group, else the parent artboard, else
  the parent page.
\<close>

lemma mostTopLeft_scan:
  assumes "ls \<noteq> []"
  shows "mostTopLeft d ls =
     Inr (fst (foldl (scanStep d) (hd ls, frame_x (obj d (hd ls)), frame_y (obj d (hd ls))) ls))"
  using assms by (cases ls) (simp_all add: mostTopLeft_def anchorLoop_foldl)

lemma layerParentOf_found:
  assumes "parentGroup (obj d a) = Some p
      \<or> parentGroup (obj d a) = None
        \<and> (parentArtboard d a = Some p \<or> parentArtboard d a = None \<and> parentPage d a = Some p)"
  shows "layerParentOf parentArtboard parentPage d a = Some p"
  using assms by (auto simp: layerParentOf_def)

text \<open>
  One new object of the document that \<^verbatim>\<open>createGrid\<close> leaves.
\<close>

lemma createGrid_cell:
  assumes "rowsCount opt = JNum r" and "0 < r"
    and "columnsCount opt = JNum c" and "0 < c"
    and "rowsMargin opt = JNum rm" and "columnsMargin opt = JNum cm"
    and "mostTopLeft d ls = Inr a"
    and "\<forall>l \<in> set ls. l < length (store d)"
    and "layerParentOf parentArtboard parentPage d a = Some p"
    and "i < nat \<lceil>r\<rceil>" and "j < nat \<lceil>c\<rceil>"
  shows "obj (snd (createGrid parentArtboard parentPage ls opt d))
           (length (store d) + (i * nat \<lceil>c\<rceil> + j)) = gridCopy (obj d a) p rm cm i j"
  using assms(10,11)
  by (simp add: createGrid_accepted[OF assms(1,2,5,3,4,6,7,8,9)] obj_def nth_append
      fold_removeFromParent_length nth_gridCopies)

text \<open>
  Counterexample to C1. With the rows count 5/2 and the columns count 2 the
  specification is accepted and six layers are returned, where rows times columns is 5:
  the loop over the rows runs for 0, 1 and 2.
\<close>

theorem createGrid_rows_times_columns_counterexample:
  "fst (createGrid noParent noParent [1, 2] (exampleOpt\<lparr>rowsCount := JNum (5 / 2)\<rparr>)
        exampleDocument) = Inr (Some [3, 4, 5, 6, 7, 8])
   \<and> of_nat (length [3, 4, 5, 6, 7, 8 :: nat]) \<noteq> (5 / 2 :: rat) * 2"
proof -
  let ?opt = "exampleOpt\<lparr>rowsCount := JNum (5 / 2)\<rparr>"
  have opt: "rowsCount ?opt = JNum (5 / 2)" "(0::rat) < 5 / 2" "rowsMargin ?opt = JNum 5"
    "columnsCount ?opt = JNum 2" "(0::rat) < 2" "columnsMargin ?opt = JNum 5"
    by (simp_all add: exampleOpt_def)
  have "\<lceil>5 / 2 :: rat\<rceil> = 3"
    by (simp add: ceiling_eq_iff)
  then have ids: "[length (store exampleDocument) ..<
      length (store exampleDocument) + nat \<lceil>5 / 2 :: rat\<rceil> * nat \<lceil>2::rat\<rceil>] = [3, 4, 5, 6, 7, 8]"
    by (simp add: example_length upt_conv_Cons)
  note cg = createGrid_accepted[OF opt example_anchor example_in_range example_parent,
      unfolded ids]
  show ?thesis
    by (subst cg) simp
qed

text \<open>
  C1, amended. For a specification with positive counts \<open>r\<close> and \<open>c\<close> and numeric
  margins, a non-empty selection of layers of the document, the anchor \<open>a\<close> that the
  scan leaves and the parent \<open>p\<close> that is its parent group, else its parent artboard,
  else its parent page, \<^verbatim>\<open>createGrid\<close> returns \<open>R * C\<close> new layers, where \<open>R\<close> and \<open>C\<close>
  are \<open>r\<close> and \<open>c\<close> rounded up, whatever the size of the selection; that is rows times
  columns when both counts are whole. Every selected layer has lost its parent. The
  layer at place \<open>i * C + j\<close> of the result is the anchor as it was, but with parent
  \<open>p\<close>, with x the anchor's x plus \<open>j\<close> times (width plus column margin) and y the
  anchor's y plus \<open>i\<close> times (height plus row margin). The calls on the tree are the
  removals of the selected layers, in order, followed by one insertion into \<open>p\<close> for
  each new layer, in the order of the result. No message is shown.
\<close>

theorem createGrid_grid:
  assumes "rowsCount opt = JNum r" and "0 < r"
    and "columnsCount opt = JNum c" and "0 < c"
    and "rowsMargin opt = JNum rm" and "columnsMargin opt = JNum cm"
    and "selectedLayers \<noteq> []"
    and "\<forall>l \<in> set selectedLayers. l < length (store d)"
    and "a = fst (foldl (scanStep d)
           (hd selectedLayers, frame_x (obj d (hd selectedLayers)),
            frame_y (obj d (hd selectedLayers))) selectedLayers)"
    and "parentGroup (obj d a) = Some p
      \<or> parentGroup (obj d a) = None
        \<and> (parentArtboard d a = Some p \<or> parentArtboard d a = None \<and> parentPage d a = Some p)"
  shows "let R = nat \<lceil>r\<rceil>; C = nat \<lceil>c\<rceil>;
             new = [length (store d) ..< length (store d) + R * C];
             d' = snd (createGrid parentArtboard parentPage selectedLayers opt d) in
         fst (createGrid parentArtboard parentPage selectedLayers opt d) = Inr (Some new)
       \<and> length new = R * C
       \<and> (r = of_nat R \<and> c = of_nat C \<longrightarrow> of_nat (length new) = r * c)
       \<and> (\<forall>l \<in> set selectedLayers. parentGroup (obj d' l) = None)
       \<and> (\<forall>i < R. \<forall>j < C. obj d' (new ! (i * C + j)) =
             (obj d a)\<lparr>parentGroup := Some p,
               frame_x := frame_x (obj d a) + of_nat j * (frame_width (obj d a) + cm),
               frame_y := frame_y (obj d a) + of_nat i * (frame_height (obj d a) + rm)\<rparr>)
       \<and> calls d' = calls d @ map RemoveFromParent selectedLayers @ map (\<lambda>l. AddLayers p [l]) new
       \<and> messages d' = messages d"
proof -
  let ?L = "length (store d)"
  let ?R = "nat \<lceil>r\<rceil>"
  let ?C = "nat \<lceil>c\<rceil>"
  have anchor: "mostTopLeft d selectedLayers = Inr a"
    unfolding assms(9) using assms(7) by (rule mostTopLeft_scan)
  have parent: "layerParentOf parentArtboard parentPage d a = Some p"
    using assms(10) by (rule layerParentOf_found)
  note cg = createGrid_accepted[OF assms(1,2,5,3,4,6) anchor assms(8) parent]
  have removed: "parentGroup (obj (snd (createGrid parentArtboard parentPage selectedLayers opt d)) l) = None"
    if "l \<in> set selectedLayers" for l
  proof -
    from that assms(8) have "l < ?L" by simp
    with that show ?thesis
      by (simp add: cg obj_def nth_append fold_removeFromParent_length
          fold_removeFromParent_obj[unfolded obj_def])
  qed
  have cell: "obj (snd (createGrid parentArtboard parentPage selectedLayers opt d))
        ([?L ..< ?L + ?R * ?C] ! (i * ?C + j)) = gridCopy (obj d a) p rm cm i j"
    if "i < ?R" "j < ?C" for i j
  proof -
    from that have "i * ?C + j < ?R * ?C" by (rule grid_index)
    with that show ?thesis
      by (simp add: cg obj_def nth_append fold_removeFromParent_length nth_gridCopies)
  qed
  have whole: "of_nat (length [?L ..< ?L + ?R * ?C]) = r * c" if "r = of_nat ?R \<and> c = of_nat ?C"
  proof -
    have "of_nat (length [?L ..< ?L + ?R * ?C]) = (of_nat ?R :: rat) * of_nat ?C"
      by simp
    with that show ?thesis by simp
  qed
  show ?thesis
    unfolding Let_def
    using removed cell whole
    by (simp add: cg gridCopy_def fold_removeFromParent_rest)
qed

text \<open>
  The amended C1 on the example document with two rows and three columns: six layers.
\<close>

theorem createGrid_grid_witness:
  "fst (createGrid noParent noParent [1, 2] (exampleOpt\<lparr>columnsCount := JNum 3\<rparr>) exampleDocument) =
     Inr (Some [3, 4, 5, 6, 7, 8])
   \<and> of_nat (length [3, 4, 5, 6, 7, 8 :: nat]) = (2 :: rat) * 3
   \<and> parentGroup (obj (snd (createGrid noParent noParent [1, 2]
         (exampleOpt\<lparr>columnsCount := JNum 3\<rparr>) exampleDocument)) 1) = None
   \<and> parentGroup (obj (snd (createGrid noParent noParent [1, 2]
         (exampleOpt\<lparr>columnsCount := JNum 3\<rparr>) exampleDocument)) 2) = None
   \<and> obj (snd (createGrid noParent noParent [1, 2]
         (exampleOpt\<lparr>columnsCount := JNum 3\<rparr>) exampleDocument)) 8 =
       \<lparr>attrs = ''B'', frame_x = 50, frame_y = 15, frame_width = 20, frame_height = 10,
        parentGroup = Some 0\<rparr>
   \<and> calls (snd (createGrid noParent noParent [1, 2]
         (exampleOpt\<lparr>columnsCount := JNum 3\<rparr>) exampleDocument)) =
       [RemoveFromParent 1, RemoveFromParent 2, AddLayers 0 [3], AddLayers 0 [4],
        AddLayers 0 [5], AddLayers 0 [6], AddLayers 0 [7], AddLayers 0 [8]]"
proof -
  let ?opt = "exampleOpt\<lparr>columnsCount := JNum 3\<rparr>"
  let ?d' = "snd (createGrid noParent noParent [1, 2] ?opt exampleDocument)"
  have h1: "rowsCount ?opt = JNum 2" and h2: "(0::rat) < 2"
    and h3: "columnsCount ?opt = JNum 3" and h4: "(0::rat) < 3"
    and h5: "rowsMargin ?opt = JNum 5" and h6: "columnsMargin ?opt = JNum 5"
    and h7: "[1, 2] \<noteq> ([]::nat list)"
    by (simp_all add: exampleOpt_def)
  have h9: "2 = fst (foldl (scanStep exampleDocument)
           (hd [1, 2], frame_x (obj exampleDocument (hd [1, 2])),
            frame_y (obj exampleDocument (hd [1, 2]))) [1, 2])"
    by (simp add: scanStep_def exampleDocument_def obj_def)
  have h10: "parentGroup (obj exampleDocument 2) = Some 0
      \<or> parentGroup (obj exampleDocument 2) = None
        \<and> (noParent exampleDocument 2 = Some 0
           \<or> noParent exampleDocument 2 = None \<and> noParent exampleDocument 2 = Some 0)"
    by (simp add: example_B)
  have cnt: "nat \<lceil>2::rat\<rceil> = 2" "nat \<lceil>3::rat\<rceil> = 3"
    by simp_all
  have upt: "[length (store exampleDocument) ..< length (store exampleDocument) + 2 * 3] =
      [3, 4, 5, 6, 7, 8]"
    by (simp add: example_length upt_conv_Cons)
  note g = createGrid_grid[where parentArtboard=noParent and parentPage=noParent,
      OF h1 h2 h3 h4 h5 h6 h7 example_in_range h9 h10, unfolded Let_def cnt upt]
  from g have "(2::rat) = of_nat 2 \<and> (3::rat) = of_nat 3 \<longrightarrow>
      of_nat (length [3, 4, 5, 6, 7, 8 :: nat]) = (2::rat) * 3"
    by blast
  then have whole: "of_nat (length [3, 4, 5, 6, 7, 8 :: nat]) = (2 :: rat) * 3"
    by simp
  from g have "\<forall>i < 2. \<forall>j < 3. obj ?d' ([3, 4, 5, 6, 7, 8] ! (i * 3 + j)) =
      (obj exampleDocument 2)\<lparr>parentGroup := Some 0,
         frame_x := frame_x (obj exampleDocument 2) + of_nat j * (frame_width (obj exampleDocument 2) + 5),
         frame_y := frame_y (obj exampleDocument 2) + of_nat i * (frame_height (obj exampleDocument 2) + 5)\<rparr>"
    by blast
  from this[rule_format, of 1 2]
  have cell: "obj ?d' 8 =
      \<lparr>attrs = ''B'', frame_x = 50, frame_y = 15, frame_width = 20, frame_height = 10,
        parentGroup = Some 0\<rparr>"
    by (simp add: example_B)
  from g have rem: "\<forall>l \<in> set [1, 2]. parentGroup (obj ?d' l) = None"
    by blast
  from g have res: "fst (createGrid noParent noParent [1, 2] ?opt exampleDocument) =
     Inr (Some [3, 4, 5, 6, 7, 8])"
    by blast
  from g have "calls ?d' = calls exampleDocument @ map RemoveFromParent [1, 2] @
      map (\<lambda>l. AddLayers 0 [l]) [3, 4, 5, 6, 7, 8]"
    by blast
  then have cl: "calls ?d' = [RemoveFromParent 1, RemoveFromParent 2, AddLayers 0 [3], AddLayers 0 [4],
        AddLayers 0 [5], AddLayers 0 [6], AddLayers 0 [7], AddLayers 0 [8]]"
    by (simp add: exampleDocument_def)
  from rem have "parentGroup (obj ?d' 1) = None" "parentGroup (obj ?d' 2) = None"
    by simp_all
  with res whole cell cl show ?thesis
    by blast
qed

text \<open>
  C5. A rows count or a columns count that is a number not above zero, and a row
  margin or a column margin that is \<^verbatim>\<open>undefined\<close>, are turned away: the result is the
  bare \<^verbatim>\<open>return\<close>, and the document is as before but for one more message, so no layer
  was removed or inserted. A margin that is exactly zero is accepted: with positive
  counts, numeric margins of which one is zero, layers of the document selected and a
  parent found, the grid is returned and no message is shown.
\<close>

theorem createGrid_validation:
  "((\<exists>q. rowsCount opt = JNum q \<and> q \<le> 0) \<or> (\<exists>q. columnsCount opt = JNum q \<and> q \<le> 0)
      \<or> rowsMargin opt = JUndefined \<or> columnsMargin opt = JUndefined
     \<longrightarrow> (\<exists>m. createGrid parentArtboard parentPage ls opt d =
            (Inr None, d\<lparr>messages := messages d @ [m]\<rparr>)))
   \<and> (rowsCount opt = JNum r \<and> 0 < r \<and> columnsCount opt = JNum c \<and> 0 < c
      \<and> rowsMargin opt = JNum rm \<and> columnsMargin opt = JNum cm \<and> (rm = 0 \<or> cm = 0)
      \<and> mostTopLeft d ls = Inr a \<and> (\<forall>l \<in> set ls. l < length (store d))
      \<and> layerParentOf parentArtboard parentPage d a = Some p
     \<longrightarrow> fst (createGrid parentArtboard parentPage ls opt d) =
           Inr (Some [length (store d) ..< length (store d) + nat \<lceil>r\<rceil> * nat \<lceil>c\<rceil>])
       \<and> messages (snd (createGrid parentArtboard parentPage ls opt d)) = messages d)"
proof (intro conjI impI)
  assume "(\<exists>q. rowsCount opt = JNum q \<and> q \<le> 0) \<or> (\<exists>q. columnsCount opt = JNum q \<and> q \<le> 0)
      \<or> rowsMargin opt = JUndefined \<or> columnsMargin opt = JUndefined"
  then have "falsy (rowsCount opt) \<or> lessThanZero (rowsCount opt)
         \<or> falsy (rowsMargin opt) \<and> notIdenticalToZero (rowsMargin opt)
         \<or> falsy (columnsCount opt) \<or> lessThanZero (columnsCount opt)
         \<or> falsy (columnsMargin opt) \<and> notIdenticalToZero (columnsMargin opt)"
    by (auto simp: le_less)
  then show "\<exists>m. createGrid parentArtboard parentPage ls opt d =
            (Inr None, d\<lparr>messages := messages d @ [m]\<rparr>)"
    by (rule createGrid_rejected)
next
  assume h: "rowsCount opt = JNum r \<and> 0 < r \<and> columnsCount opt = JNum c \<and> 0 < c
      \<and> rowsMargin opt = JNum rm \<and> columnsMargin opt = JNum cm \<and> (rm = 0 \<or> cm = 0)
      \<and> mostTopLeft d ls = Inr a \<and> (\<forall>l \<in> set ls. l < length (store d))
      \<and> layerParentOf parentArtboard parentPage d a = Some p"
  then have cg: "createGrid parentArtboard parentPage ls opt d =
     (Inr (Some [length (store d) ..< length (store d) + nat \<lceil>r\<rceil> * nat \<lceil>c\<rceil>]),
      (fold removeFromParent ls d)
        \<lparr>store := store (fold removeFromParent ls d) @ gridCopies (obj d a) p rm cm (nat \<lceil>r\<rceil>) (nat \<lceil>c\<rceil>),
         calls := calls d @ map RemoveFromParent ls @
           map (\<lambda>k. AddLayers p [k]) [length (store d) ..< length (store d) + nat \<lceil>r\<rceil> * nat \<lceil>c\<rceil>]\<rparr>)"
    by (intro createGrid_accepted) simp_all
  show "fst (createGrid parentArtboard parentPage ls opt d) =
           Inr (Some [length (store d) ..< length (store d) + nat \<lceil>r\<rceil> * nat \<lceil>c\<rceil>])"
    by (simp add: cg)
  show "messages (snd (createGrid parentArtboard parentPage ls opt d)) = messages d"
    by (simp add: cg fold_removeFromParent_rest)
qed

text \<open>
  C5 on the example document: four rejected specifications and one with zero margins.
\<close>

theorem createGrid_validation_witness:
  "(\<exists>m. createGrid noParent noParent [1, 2] (exampleOpt\<lparr>rowsCount := JNum 0\<rparr>) exampleDocument =
      (Inr None, exampleDocument\<lparr>messages := messages exampleDocument @ [m]\<rparr>))
   \<and> (\<exists>m. createGrid noParent noParent [1, 2] (exampleOpt\<lparr>rowsCount := JNum (- 1)\<rparr>) exampleDocument =
      (Inr None, exampleDocument\<lparr>messages := messages exampleDocument @ [m]\<rparr>))
   \<and> (\<exists>m. createGrid noParent noParent [1, 2] (exampleOpt\<lparr>columnsCount := JNum 0\<rparr>) exampleDocument =
      (Inr None, exampleDocument\<lparr>messages := messages exampleDocument @ [m]\<rparr>))
   \<and> (\<exists>m. createGrid noParent noParent [1, 2] (exampleOpt\<lparr>rowsMargin := JUndefined\<rparr>) exampleDocument =
      (Inr None, exampleDocument\<lparr>messages := messages exampleDocument @ [m]\<rparr>))
   \<and> fst (createGrid noParent noParent [1, 2]
        (exampleOpt\<lparr>rowsMargin := JNum 0, columnsMargin := JNum 0\<rparr>) exampleDocument) =
      Inr (Some [3, 4, 5, 6])"
proof -
  have r0: "\<exists>q. rowsCount (exampleOpt\<lparr>rowsCount := JNum 0\<rparr>) = JNum q \<and> q \<le> 0"
    and r1: "\<exists>q. rowsCount (exampleOpt\<lparr>rowsCount := JNum (- 1)\<rparr>) = JNum q \<and> q \<le> 0"
    and c0: "\<exists>q. columnsCount (exampleOpt\<lparr>columnsCount := JNum 0\<rparr>) = JNum q \<and> q \<le> 0"
    and mu: "rowsMargin (exampleOpt\<lparr>rowsMargin := JUndefined\<rparr>) = JUndefined"
    by simp_all
  let ?zero = "exampleOpt\<lparr>rowsMargin := JNum 0, columnsMargin := JNum 0\<rparr>"
  have ok: "rowsCount ?zero = JNum 2 \<and> (0::rat) < 2 \<and> columnsCount ?zero = JNum 2 \<and> (0::rat) < 2
      \<and> rowsMargin ?zero = JNum 0 \<and> columnsMargin ?zero = JNum 0 \<and> ((0::rat) = 0 \<or> (0::rat) = 0)
      \<and> mostTopLeft exampleDocument [1, 2] = Inr 2
      \<and> (\<forall>l \<in> set [1, 2]. l < length (store exampleDocument))
      \<and> layerParentOf noParent noParent exampleDocument 2 = Some 0"
    using example_anchor example_in_range example_parent by (simp add: exampleOpt_def)
  have ids: "[length (store exampleDocument) ..< length (store exampleDocument) + nat \<lceil>2::rat\<rceil> * nat \<lceil>2::rat\<rceil>] = [3, 4, 5, 6]"
    by (simp add: example_length upt_conv_Cons)
  have "fst (createGrid noParent noParent [1, 2] ?zero exampleDocument) =
      Inr (Some [length (store exampleDocument) ..< length (store exampleDocument) + nat \<lceil>2::rat\<rceil> * nat \<lceil>2::rat\<rceil>])"
    using createGrid_validation[where opt="?zero" and r=2 and c=2 and rm=0 and cm=0
        and d=exampleDocument and ls="[1, 2]" and a=2 and parentArtboard=noParent and parentPage=noParent and p=0] ok
    by blast
  then have accepted: "fst (createGrid noParent noParent [1, 2] ?zero exampleDocument) = Inr (Some [3, 4, 5, 6])"
    unfolding ids .
  show ?thesis
    using createGrid_validation[where opt="exampleOpt\<lparr>rowsCount := JNum 0\<rparr>", THEN conjunct1, rule_format, OF disjI1, OF r0]
      createGrid_validation[where opt="exampleOpt\<lparr>rowsCount := JNum (- 1)\<rparr>", THEN conjunct1, rule_format, OF disjI1, OF r1]
      createGrid_validation[where opt="exampleOpt\<lparr>columnsCount := JNum 0\<rparr>", THEN conjunct1, rule_format, OF disjI2, OF disjI1, OF c0]
      createGrid_validation[where opt="exampleOpt\<lparr>rowsMargin := JUndefined\<rparr>", THEN conjunct1, rule_format, OF disjI2, OF disjI2, OF disjI1, OF mu]
      accepted
    by blast
qed

text \<open>
  Counterexample to C9. Both margins are \<open>-5\<close>; the specification is not turned away:
  four layers are returned and no message is shown.
\<close>

theorem createGrid_negative_margin_counterexample:
  "fst (createGrid noParent noParent [1, 2]
        (exampleOpt\<lparr>rowsMargin := JNum (- 5), columnsMargin := JNum (- 5)\<rparr>) exampleDocument) =
      Inr (Some [3, 4, 5, 6])
   \<and> messages (snd (createGrid noParent noParent [1, 2]
        (exampleOpt\<lparr>rowsMargin := JNum (- 5), columnsMargin := JNum (- 5)\<rparr>) exampleDocument)) = []"
proof -
  let ?opt = "exampleOpt\<lparr>rowsMargin := JNum (- 5), columnsMargin := JNum (- 5)\<rparr>"
  have opt: "rowsCount ?opt = JNum 2" "(0::rat) < 2" "rowsMargin ?opt = JNum (- 5)"
    "columnsCount ?opt = JNum 2" "columnsMargin ?opt = JNum (- 5)"
    by (simp_all add: exampleOpt_def)
  have ids: "[length (store exampleDocument) ..< length (store exampleDocument) + nat \<lceil>2::rat\<rceil> * nat \<lceil>2::rat\<rceil>] = [3, 4, 5, 6]"
    by (simp add: example_length upt_conv_Cons)
  note cg = createGrid_accepted[OF opt(1,2,3,4,2,5) example_anchor example_in_range example_parent,
      unfolded ids]
  have "messages exampleDocument = []"
    by (simp add: exampleDocument_def)
  then show ?thesis
    by (subst (1 2) cg) (simp add: removeFromParent_def)
qed

text \<open>
  C9, amended. The margins are checked for presence only. A specification with positive
  counts in which a margin is a negative number is accepted: the grid is returned, no
  message is shown, and the negative margin enters the positions as any margin does.
\<close>

theorem createGrid_accepts_negative_margins:
  assumes "rowsCount opt = JNum r" and "0 < r"
    and "columnsCount opt = JNum c" and "0 < c"
    and "rowsMargin opt = JNum rm" and "columnsMargin opt = JNum cm"
    and "rm < 0 \<or> cm < 0"
    and "mostTopLeft d ls = Inr a"
    and "\<forall>l \<in> set ls. l < length (store d)"
    and "layerParentOf parentArtboard parentPage d a = Some p"
  shows "fst (createGrid parentArtboard parentPage ls opt d) =
           Inr (Some [length (store d) ..< length (store d) + nat \<lceil>r\<rceil> * nat \<lceil>c\<rceil>])
       \<and> messages (snd (createGrid parentArtboard parentPage ls opt d)) = messages d
       \<and> (\<forall>i < nat \<lceil>r\<rceil>. \<forall>j < nat \<lceil>c\<rceil>.
            frame_x (obj (snd (createGrid parentArtboard parentPage ls opt d))
                      (length (store d) + (i * nat \<lceil>c\<rceil> + j))) =
              frame_x (obj d a) + of_nat j * (frame_width (obj d a) + cm)
          \<and> frame_y (obj (snd (createGrid parentArtboard parentPage ls opt d))
                      (length (store d) + (i * nat \<lceil>c\<rceil> + j))) =
              frame_y (obj d a) + of_nat i * (frame_height (obj d a) + rm))"
proof -
  note cg = createGrid_accepted[OF assms(1,2,5,3,4,6,8,9,10)]
  have cell: "obj (snd (createGrid parentArtboard parentPage ls opt d))
        (length (store d) + (i * nat \<lceil>c\<rceil> + j)) = gridCopy (obj d a) p rm cm i j"
    if "i < nat \<lceil>r\<rceil>" "j < nat \<lceil>c\<rceil>" for i j
    using that
    by (simp add: cg obj_def nth_append fold_removeFromParent_length nth_gridCopies)
  show ?thesis
    using cell by (simp add: cg fold_removeFromParent_rest gridCopy_def)
qed

text \<open>
  The amended C9 on the example document with both margins \<open>-5\<close>.
\<close>

theorem createGrid_accepts_negative_margins_witness:
  "fst (createGrid noParent noParent [1, 2]
        (exampleOpt\<lparr>rowsMargin := JNum (- 5), columnsMargin := JNum (- 5)\<rparr>) exampleDocument) =
      Inr (Some [3, 4, 5, 6])
   \<and> frame_x (obj (snd (createGrid noParent noParent [1, 2]
        (exampleOpt\<lparr>rowsMargin := JNum (- 5), columnsMargin := JNum (- 5)\<rparr>) exampleDocument)) 6) = 15
   \<and> frame_y (obj (snd (createGrid noParent noParent [1, 2]
        (exampleOpt\<lparr>rowsMargin := JNum (- 5), columnsMargin := JNum (- 5)\<rparr>) exampleDocument)) 6) = 5"
proof -
  let ?opt = "exampleOpt\<lparr>rowsMargin := JNum (- 5), columnsMargin := JNum (- 5)\<rparr>"
  have opt: "rowsCount ?opt = JNum 2" "(0::rat) < 2" "rowsMargin ?opt = JNum (- 5)"
    "columnsCount ?opt = JNum 2" "columnsMargin ?opt = JNum (- 5)" "(- 5 :: rat) < 0 \<or> (- 5 :: rat) < 0"
    by (simp_all add: exampleOpt_def)
  have ids: "[length (store exampleDocument) ..< length (store exampleDocument) + nat \<lceil>2::rat\<rceil> * nat \<lceil>2::rat\<rceil>] = [3, 4, 5, 6]"
    by (simp add: example_length upt_conv_Cons)
  note t = createGrid_accepts_negative_margins[OF opt(1,2,4,2,3,5,6) example_anchor example_in_range
      example_parent, unfolded ids]
  from t have "\<forall>i < nat \<lceil>2::rat\<rceil>. \<forall>j < nat \<lceil>2::rat\<rceil>.
            frame_x (obj (snd (createGrid noParent noParent [1, 2] ?opt exampleDocument))
                      (length (store exampleDocument) + (i * nat \<lceil>2::rat\<rceil> + j))) =
              frame_x (obj exampleDocument 2) + of_nat j * (frame_width (obj exampleDocument 2) + - 5)
          \<and> frame_y (obj (snd (createGrid noParent noParent [1, 2] ?opt exampleDocument))
                      (length (store exampleDocument) + (i * nat \<lceil>2::rat\<rceil> + j))) =
              frame_y (obj exampleDocument 2) + of_nat i * (frame_height (obj exampleDocument 2) + - 5)"
    by blast
  from this[rule_format, of 1 1] have
    "frame_x (obj (snd (createGrid noParent noParent [1, 2] ?opt exampleDocument)) 6) = 15
     \<and> frame_y (obj (snd (createGrid noParent noParent [1, 2] ?opt exampleDocument)) 6) = 5"
    by (simp add: example_length example_B)
  with t show ?thesis
    by blast
qed

text \<open>
  C10. A rows count strictly between 0 and 1 passes the checks and gives exactly one
  row: with a positive whole columns count \<open>C\<close> the result has \<open>C\<close> layers, all at the
  anchor's y.
\<close>

theorem createGrid_fractional_rows:
  assumes "rowsCount opt = JNum r" and "0 < r" and "r < 1"
    and "columnsCount opt = JNum (of_nat C)" and "0 < C"
    and "rowsMargin opt = JNum rm" and "columnsMargin opt = JNum cm"
    and "mostTopLeft d ls = Inr a"
    and "\<forall>l \<in> set ls. l < length (store d)"
    and "layerParentOf parentArtboard parentPage d a = Some p"
  shows "fst (createGrid parentArtboard parentPage ls opt d) =
           Inr (Some [length (store d) ..< length (store d) + C])
       \<and> messages (snd (createGrid parentArtboard parentPage ls opt d)) = messages d
       \<and> (\<forall>j < C. obj (snd (createGrid parentArtboard parentPage ls opt d)) (length (store d) + j) =
            (obj d a)\<lparr>parentGroup := Some p,
              frame_x := frame_x (obj d a) + of_nat j * (frame_width (obj d a) + cm),
              frame_y := frame_y (obj d a)\<rparr>)"
proof -
  have one: "nat \<lceil>r\<rceil> = 1"
  proof -
    from assms(2,3) have "\<lceil>r\<rceil> = 1"
      by (simp add: ceiling_eq_iff)
    then show ?thesis by simp
  qed
  have C: "0 < (of_nat C :: rat)" "nat \<lceil>of_nat C :: rat\<rceil> = C"
    using assms(5) by simp_all
  note cg = createGrid_accepted[OF assms(1,2,6,4) C(1) assms(7,8,9,10), unfolded one C(2)]
  have cell: "obj (snd (createGrid parentArtboard parentPage ls opt d)) (length (store d) + j) =
      gridCopy (obj d a) p rm cm 0 j" if "j < C" for j
    using that nth_gridCopies[of 0 1 j C "obj d a" p rm cm]
    by (simp add: cg obj_def nth_append fold_removeFromParent_length)
  show ?thesis
    using cell by (simp add: cg fold_removeFromParent_rest gridCopy_def)
qed

text \<open>
  C10 on the example document with the rows count one half.
\<close>

theorem createGrid_fractional_rows_witness:
  "fst (createGrid noParent noParent [1, 2] (exampleOpt\<lparr>rowsCount := JNum (1 / 2)\<rparr>) exampleDocument) =
      Inr (Some [3, 4])
   \<and> obj (snd (createGrid noParent noParent [1, 2] (exampleOpt\<lparr>rowsCount := JNum (1 / 2)\<rparr>)
        exampleDocument)) 4 =
      \<lparr>attrs = ''B'', frame_x = 25, frame_y = 0, frame_width = 20, frame_height = 10,
       parentGroup = Some 0\<rparr>"
proof -
  let ?opt = "exampleOpt\<lparr>rowsCount := JNum (1 / 2)\<rparr>"
  have opt: "rowsCount ?opt = JNum (1 / 2)" "(0::rat) < 1 / 2" "(1 / 2 :: rat) < 1"
    "columnsCount ?opt = JNum (of_nat 2)" "0 < (2::nat)"
    "rowsMargin ?opt = JNum 5" "columnsMargin ?opt = JNum 5"
    by (simp_all add: exampleOpt_def)
  have ids: "[length (store exampleDocument) ..< length (store exampleDocument) + 2] = [3, 4]"
    by (simp add: example_length upt_conv_Cons)
  note t = createGrid_fractional_rows[OF opt example_anchor example_in_range example_parent,
      unfolded ids]
  from t have "\<forall>j < 2. obj (snd (createGrid noParent noParent [1, 2] ?opt exampleDocument))
        (length (store exampleDocument) + j) =
      (obj exampleDocument 2)\<lparr>parentGroup := Some 0,
         frame_x := frame_x (obj exampleDocument 2) + of_nat j * (frame_width (obj exampleDocument 2) + 5),
         frame_y := frame_y (obj exampleDocument 2)\<rparr>"
    by blast
  from this[rule_format, of 1] have
    "obj (snd (createGrid noParent noParent [1, 2] ?opt exampleDocument)) 4 =
      \<lparr>attrs = ''B'', frame_x = 25, frame_y = 0, frame_width = 20, frame_height = 10,
       parentGroup = Some 0\<rparr>"
    by (simp add: example_length example_B)
  with t show ?thesis
    by blast
qed

text \<open>
  C6. For every non-empty selection of layers of the document and every accepted
  specification, the anchor of \<^verbatim>\<open>createGrid\<close> is the layer \<open>a\<close> that a single
  left-to-right pass over the selection leaves, started at the first layer with its
  coordinates, in which a candidate replaces the anchor when its x is below the best x
  or its y is below the best y, both best values then becoming the candidate's: every
  new layer of the document that \<^verbatim>\<open>createGrid\<close> leaves is a copy of \<open>a\<close>, placed from
  the position of \<open>a\<close>. In the example of the specification (A at (10, 50), B at
  (0, 0), two rows, two columns, margins 5, B being 20 by 10) the anchor is B and the
  four new layers stand at (0, 0), (25, 0), (0, 15) and (25, 15).
\<close>

theorem createGrid_anchor_scan:
  assumes "rowsCount opt = JNum r" and "0 < r"
    and "columnsCount opt = JNum c" and "0 < c"
    and "rowsMargin opt = JNum rm" and "columnsMargin opt = JNum cm"
    and "selectedLayers \<noteq> []"
    and "\<forall>l \<in> set selectedLayers. l < length (store d)"
    and "a = fst (foldl (scanStep d)
           (hd selectedLayers, frame_x (obj d (hd selectedLayers)),
            frame_y (obj d (hd selectedLayers))) selectedLayers)"
    and "parentGroup (obj d a) = Some p
      \<or> parentGroup (obj d a) = None
        \<and> (parentArtboard d a = Some p \<or> parentArtboard d a = None \<and> parentPage d a = Some p)"
  shows "mostTopLeft d selectedLayers = Inr a
       \<and> (\<forall>i < nat \<lceil>r\<rceil>. \<forall>j < nat \<lceil>c\<rceil>.
            obj (snd (createGrid parentArtboard parentPage selectedLayers opt d))
                (length (store d) + (i * nat \<lceil>c\<rceil> + j)) =
              (obj d a)\<lparr>parentGroup := Some p,
                frame_x := frame_x (obj d a) + of_nat j * (frame_width (obj d a) + cm),
                frame_y := frame_y (obj d a) + of_nat i * (frame_height (obj d a) + rm)\<rparr>)
       \<and> mostTopLeft exampleDocument [1, 2] = Inr 2
       \<and> fst (createGrid noParent noParent [1, 2] exampleOpt exampleDocument) =
           Inr (Some [3, 4, 5, 6])
       \<and> map (\<lambda>l. (frame_x (obj (snd (createGrid noParent noParent [1, 2] exampleOpt
                                         exampleDocument)) l),
                    frame_y (obj (snd (createGrid noParent noParent [1, 2] exampleOpt
                                         exampleDocument)) l)))
            [3, 4, 5, 6] = [(0, 0), (25, 0), (0, 15), (25, 15)]"
proof -
  have anchor: "mostTopLeft d selectedLayers = Inr a"
    unfolding assms(9) using assms(7) by (rule mostTopLeft_scan)
  have parent: "layerParentOf parentArtboard parentPage d a = Some p"
    using assms(10) by (rule layerParentOf_found)
  have cells: "\<forall>i < nat \<lceil>r\<rceil>. \<forall>j < nat \<lceil>c\<rceil>.
            obj (snd (createGrid parentArtboard parentPage selectedLayers opt d))
                (length (store d) + (i * nat \<lceil>c\<rceil> + j)) =
              (obj d a)\<lparr>parentGroup := Some p,
                frame_x := frame_x (obj d a) + of_nat j * (frame_width (obj d a) + cm),
                frame_y := frame_y (obj d a) + of_nat i * (frame_height (obj d a) + rm)\<rparr>"
    using createGrid_cell[OF assms(1,2,3,4,5,6) anchor assms(8) parent]
    by (simp add: gridCopy_def)
  have ids: "[length (store exampleDocument) ..< length (store exampleDocument) + nat \<lceil>2::rat\<rceil> * nat \<lceil>2::rat\<rceil>] = [3, 4, 5, 6]"
    by (simp add: exampleDocument_def upt_conv_Cons)
  have copies: "gridCopies (obj exampleDocument 2) 0 5 5 (nat \<lceil>2::rat\<rceil>) (nat \<lceil>2::rat\<rceil>) =
     [\<lparr>attrs = ''B'', frame_x = 0, frame_y = 0, frame_width = 20, frame_height = 10, parentGroup = Some 0\<rparr>,
      \<lparr>attrs = ''B'', frame_x = 25, frame_y = 0, frame_width = 20, frame_height = 10, parentGroup = Some 0\<rparr>,
      \<lparr>attrs = ''B'', frame_x = 0, frame_y = 15, frame_width = 20, frame_height = 10, parentGroup = Some 0\<rparr>,
      \<lparr>attrs = ''B'', frame_x = 25, frame_y = 15, frame_width = 20, frame_height = 10, parentGroup = Some 0\<rparr>]"
    by (simp add: gridCopies_def gridCopy_def exampleDocument_def obj_def upt_conv_Cons)
  have opt: "rowsCount exampleOpt = JNum 2" "(0::rat) < 2" "rowsMargin exampleOpt = JNum 5"
    "columnsCount exampleOpt = JNum 2" "columnsMargin exampleOpt = JNum 5"
    by (simp_all add: exampleOpt_def)
  note cg = createGrid_accepted[OF opt(1,2,3,4,2,5) example_anchor example_in_range example_parent,
      unfolded ids copies]
  have res: "fst (createGrid noParent noParent [1, 2] exampleOpt exampleDocument) = Inr (Some [3, 4, 5, 6])"
    by (subst cg) simp
  have st: "store (snd (createGrid noParent noParent [1, 2] exampleOpt exampleDocument)) =
      store (fold removeFromParent [1, 2] exampleDocument) @
     [\<lparr>attrs = ''B'', frame_x = 0, frame_y = 0, frame_width = 20, frame_height = 10, parentGroup = Some 0\<rparr>,
      \<lparr>attrs = ''B'', frame_x = 25, frame_y = 0, frame_width = 20, frame_height = 10, parentGroup = Some 0\<rparr>,
      \<lparr>attrs = ''B'', frame_x = 0, frame_y = 15, frame_width = 20, frame_height = 10, parentGroup = Some 0\<rparr>,
      \<lparr>attrs = ''B'', frame_x = 25, frame_y = 15, frame_width = 20, frame_height = 10, parentGroup = Some 0\<rparr>]"
    by (subst cg) simp
  have pos: "map (\<lambda>l. (frame_x (obj (snd (createGrid noParent noParent [1, 2] exampleOpt exampleDocument)) l),
                frame_y (obj (snd (createGrid noParent noParent [1, 2] exampleOpt exampleDocument)) l)))
        [3, 4, 5, 6] = [(0, 0), (25, 0), (0, 15), (25, 15)]"
    unfolding obj_def st
    by (simp add: nth_append removeFromParent_def exampleDocument_def obj_def)
  from anchor cells example_anchor res pos show ?thesis
    by blast
qed

text \<open>
  C6 on the example with the selection in the order B, A: the pass ends at B, the
  first layer of the selection, and the new layers are copies of B.
\<close>

theorem createGrid_anchor_scan_witness:
  "[2, 1] \<noteq> ([] :: nat list)
   \<and> fst (foldl (scanStep exampleDocument) (2, 0, 0) [2, 1]) = 2
   \<and> mostTopLeft exampleDocument [2, 1] = Inr 2
   \<and> obj (snd (createGrid noParent noParent [2, 1] exampleOpt exampleDocument)) 3 =
       \<lparr>attrs = ''B'', frame_x = 0, frame_y = 0, frame_width = 20, frame_height = 10,
        parentGroup = Some 0\<rparr>
   \<and> obj (snd (createGrid noParent noParent [2, 1] exampleOpt exampleDocument)) 6 =
       \<lparr>attrs = ''B'', frame_x = 25, frame_y = 15, frame_width = 20, frame_height = 10,
        parentGroup = Some 0\<rparr>"
proof -
  let ?d' = "snd (createGrid noParent noParent [2, 1] exampleOpt exampleDocument)"
  have h1: "rowsCount exampleOpt = JNum 2" and h2: "(0::rat) < 2"
    and h3: "columnsCount exampleOpt = JNum 2"
    and h5: "rowsMargin exampleOpt = JNum 5" and h6: "columnsMargin exampleOpt = JNum 5"
    and h7: "[2, 1] \<noteq> ([]::nat list)"
    and h8: "\<forall>l \<in> set [2, 1]. l < length (store exampleDocument)"
    by (simp_all add: exampleOpt_def exampleDocument_def)
  have scan: "fst (foldl (scanStep exampleDocument) (2, 0, 0) [2, 1]) = 2"
    by (simp add: scanStep_def exampleDocument_def obj_def)
  have start: "(hd [2, 1], frame_x (obj exampleDocument (hd [2, 1])),
      frame_y (obj exampleDocument (hd [2, 1]))) = (2 :: nat, 0, 0)"
    by (simp add: example_B)
  have h9: "2 = fst (foldl (scanStep exampleDocument)
           (hd [2, 1], frame_x (obj exampleDocument (hd [2, 1])),
            frame_y (obj exampleDocument (hd [2, 1]))) [2, 1])"
    unfolding start scan by simp
  have h10: "parentGroup (obj exampleDocument 2) = Some 0
      \<or> parentGroup (obj exampleDocument 2) = None
        \<and> (noParent exampleDocument 2 = Some 0
           \<or> noParent exampleDocument 2 = None \<and> noParent exampleDocument 2 = Some 0)"
    by (simp add: example_B)
  have cnt: "nat \<lceil>2::rat\<rceil> = 2"
    by simp
  note g = createGrid_anchor_scan[where parentArtboard=noParent and parentPage=noParent,
      OF h1 h2 h3 h2 h5 h6 h7 h8 h9 h10, unfolded cnt]
  from g have anchor: "mostTopLeft exampleDocument [2, 1] = Inr 2"
    by blast
  from g have "\<forall>i < 2. \<forall>j < 2. obj ?d' (length (store exampleDocument) + (i * 2 + j)) =
      (obj exampleDocument 2)\<lparr>parentGroup := Some 0,
         frame_x := frame_x (obj exampleDocument 2) + of_nat j * (frame_width (obj exampleDocument 2) + 5),
         frame_y := frame_y (obj exampleDocument 2) + of_nat i * (frame_height (obj exampleDocument 2) + 5)\<rparr>"
    by blast
  from this[rule_format, of 0 0] this[rule_format, of 1 1]
  have "obj ?d' 3 =
       \<lparr>attrs = ''B'', frame_x = 0, frame_y = 0, frame_width = 20, frame_height = 10,
        parentGroup = Some 0\<rparr>"
    and "obj ?d' 6 =
       \<lparr>attrs = ''B'', frame_x = 25, frame_y = 15, frame_width = 20, frame_height = 10,
        parentGroup = Some 0\<rparr>"
    by (simp_all add: example_length example_B)
  with h7 scan anchor show ?thesis
    by blast
qed

end
